theory Spec2Isabelle
  imports Complex_Main
begin

section \<open>Errors and results\<close>

text \<open>
  The Python exceptions that the modelled code can raise. A function of the source that
  can raise returns \<open>error + 'a\<close>, with \<open>Inl\<close> for the exception.
  \<open>MissingMetadataError\<close> is the error of the specification for an instance of a batch
  without its metadata; it carries the position of the instance.
\<close>

datatype error =
    RuntimeError
  | AttributeError
  | TypeError
  | ValueError
  | IndexError
  | KeyError
  | ZeroDivisionError
  | MissingMetadataError nat

section \<open>Tensors\<close>

text \<open>
  A tensor is its shape and its entries, read at a multi-index. Only the entries at
  indices inside the shape mean anything. The entries are reals: the modelled code copies
  entries, writes the constants 0 and 1 and negates, which are exact on floats; all other
  arithmetic lives in collaborators that the model takes as parameters.
\<close>

record tensor =
  shape :: "nat list"
  entry :: "nat list \<Rightarrow> real"

definition ndim :: "tensor \<Rightarrow> nat" where
  "ndim t = length (shape t)"

definition valid_index :: "nat list \<Rightarrow> nat list \<Rightarrow> bool" where
  "valid_index sh idx = list_all2 (<) idx sh"

text \<open>\<open>torch.empty(sh)\<close>: the entries are whatever the fresh memory holds (\<open>junk\<close>).\<close>

definition torch_empty :: "(nat list \<Rightarrow> real) \<Rightarrow> nat list \<Rightarrow> tensor" where
  "torch_empty junk sh = \<lparr>shape = sh, entry = junk\<rparr>"

definition torch_empty_like :: "(nat list \<Rightarrow> real) \<Rightarrow> tensor \<Rightarrow> tensor" where
  "torch_empty_like junk t = torch_empty junk (shape t)"

definition torch_zeros :: "nat list \<Rightarrow> tensor" where
  "torch_zeros sh = \<lparr>shape = sh, entry = (\<lambda>idx. 0)\<rparr>"

definition torch_eye :: "nat \<Rightarrow> tensor" where
  "torch_eye n =
     \<lparr>shape = [n, n],
      entry = (\<lambda>idx. case idx of [i, j] \<Rightarrow> (if i = j then 1 else 0) | _ \<Rightarrow> 0)\<rparr>"

text \<open>Row-major position of a multi-index, and back.\<close>

fun ravel :: "nat list \<Rightarrow> nat list \<Rightarrow> nat" where
  "ravel (d # ds) (i # is) = i * prod_list ds + ravel ds is"
| "ravel _ _ = 0"

fun unravel :: "nat list \<Rightarrow> nat \<Rightarrow> nat list" where
  "unravel [] k = []"
| "unravel (d # ds) k = (k div prod_list ds) # unravel ds (k mod prod_list ds)"

text \<open>\<open>t.reshape(sh)\<close> with an explicit shape: the number of entries must not change.\<close>

definition reshape :: "tensor \<Rightarrow> nat list \<Rightarrow> error + tensor" where
  "reshape t sh =
     (if prod_list sh = prod_list (shape t)
      then Inr \<lparr>shape = sh, entry = (\<lambda>idx. entry t (unravel (shape t) (ravel sh idx)))\<rparr>
      else Inl RuntimeError)"

text \<open>
  \<open>t.repeat(reps)\<close>: tiles the tensor; \<open>reps\<close> has at least as many dimensions as
  the tensor, which gets leading dimensions of size 1 when it has fewer.
\<close>

definition repeat :: "tensor \<Rightarrow> nat list \<Rightarrow> error + tensor" where
  "repeat t reps =
     (if length reps < ndim t then Inl RuntimeError
      else let k = length reps - ndim t;
               sh = replicate k 1 @ shape t
           in Inr \<lparr>shape = map2 (*) sh reps,
                   entry = (\<lambda>idx. entry t (drop k (map2 (\<lambda>j d. j mod d) idx sh)))\<rparr>)"

text \<open>\<open>torch.stack(ts)\<close>: a non-empty sequence of tensors of one shape, along a new first axis.\<close>

definition stack :: "tensor list \<Rightarrow> error + tensor" where
  "stack ts =
     (case ts of
        [] \<Rightarrow> Inl RuntimeError
      | t # rest \<Rightarrow>
          if list_all (\<lambda>u. shape u = shape t) rest
          then Inr \<lparr>shape = length ts # shape t,
                    entry = (\<lambda>idx. case idx of
                                      [] \<Rightarrow> 0
                                    | k # r \<Rightarrow> if k < length ts then entry (ts ! k) r else 0)\<rparr>
          else Inl RuntimeError)"

text \<open>\<open>len(t)\<close>: the size of the first axis; a tensor without axes has no length.\<close>

definition len :: "tensor \<Rightarrow> error + nat" where
  "len t = (case shape t of [] \<Rightarrow> Inl TypeError | d # _ \<Rightarrow> Inr d)"

text \<open>\<open>t[k]\<close>: entry \<open>k\<close> along the first axis.\<close>

definition select0 :: "tensor \<Rightarrow> nat \<Rightarrow> error + tensor" where
  "select0 t k =
     (case shape t of
        [] \<Rightarrow> Inl IndexError
      | d # rest \<Rightarrow>
          if k < d
          then Inr \<lparr>shape = rest,
                    entry = (\<lambda>idx. if valid_index rest idx then entry t (k # idx) else 0)\<rparr>
          else Inl IndexError)"

text \<open>
  \<open>t[:, i]\<close>: frame \<open>i\<close> along the second axis. \<open>slice1\<close> is the slice itself; it
  holds the entries inside its shape and nothing else, so two slices are equal exactly
  when they have one shape and agree at every index inside it. \<open>select1\<close> adds the
  checks of the indexing: two axes at least, and \<open>i\<close> inside the second.
\<close>

definition slice1 :: "tensor \<Rightarrow> nat \<Rightarrow> tensor" where
  "slice1 t i =
     (let sh = hd (shape t) # drop 2 (shape t)
      in \<lparr>shape = sh,
          entry = (\<lambda>idx. if valid_index sh idx then entry t (hd idx # i # tl idx) else 0)\<rparr>)"

definition select1 :: "tensor \<Rightarrow> nat \<Rightarrow> error + tensor" where
  "select1 t i =
     (case shape t of
        d0 # d1 # rest \<Rightarrow> if i < d1 then Inr (slice1 t i) else Inl IndexError
      | _ \<Rightarrow> Inl IndexError)"

text \<open>
  Broadcasting, as in an assignment to a slice: the source's shape, aligned at the last
  axis, has in each axis the size of the destination or 1.
\<close>

definition broadcastable :: "nat list \<Rightarrow> nat list \<Rightarrow> bool" where
  "broadcastable src dst =
     (length src \<le> length dst \<and>
      list_all2 (\<lambda>s d. s = d \<or> s = 1) src (drop (length dst - length src) dst))"

definition broadcast_entry :: "tensor \<Rightarrow> nat list \<Rightarrow> real" where
  "broadcast_entry v idx =
     entry v (map2 (\<lambda>s j. if s = 1 then 0 else j) (shape v) (drop (length idx - ndim v) idx))"

text \<open>\<open>t[:, i] = v\<close>: writes \<open>v\<close>, broadcast to the slice, into frame \<open>i\<close>.\<close>

definition assign1 :: "tensor \<Rightarrow> nat \<Rightarrow> tensor \<Rightarrow> error + tensor" where
  "assign1 t i v =
     (case shape t of
        d0 # d1 # rest \<Rightarrow>
          if i < d1
          then (if broadcastable (shape v) (d0 # rest)
                then Inr (t\<lparr>entry :=
                           (\<lambda>idx. case idx of
                                     n # j # r \<Rightarrow> if j = i then broadcast_entry v (n # r)
                                                  else entry t idx
                                   | _ \<Rightarrow> entry t idx)\<rparr>)
                else Inl RuntimeError)
          else Inl IndexError
      | _ \<Rightarrow> Inl IndexError)"

text \<open>\<open>t[..., c] = x\<close>: writes the scalar \<open>x\<close> at position \<open>c\<close> of the last axis.\<close>

definition assign_last :: "tensor \<Rightarrow> nat \<Rightarrow> real \<Rightarrow> error + tensor" where
  "assign_last t c x =
     (if shape t = [] then Inl IndexError
      else if last (shape t) \<le> c then Inl IndexError
      else Inr (t\<lparr>entry := (\<lambda>idx. if idx \<noteq> [] \<and> last idx = c then x else entry t idx)\<rparr>))"

section \<open>The world accumulator in location+rotation mode\<close>

text \<open>
  \<open>ProjectionModule._calculate_world_from_loc_rot\<close>: unpacks batch size and clip length
  from the shape of the absolute locations (at least two axes, or the unpacking raises),
  replaces an absent world location by zeros and an absent world rotation by identity
  matrices, and returns both.
\<close>

definition calculate_world_from_loc_rot ::
  "tensor \<Rightarrow> tensor option \<Rightarrow> tensor option \<Rightarrow> error + (tensor \<times> tensor)" where
  "calculate_world_from_loc_rot absolute_loc world_loc_inputs world_rot_inputs =
     (case shape absolute_loc of
        batch_size # clip_length # _ \<Rightarrow>
          let loc = (case world_loc_inputs of
                       None \<Rightarrow> Inr (torch_zeros [batch_size, clip_length, 3])
                     | Some t \<Rightarrow> Inr t)
          in (case loc of
                Inl e \<Rightarrow> Inl e
              | Inr world_loc \<Rightarrow>
                  let rot = (case world_rot_inputs of
                               None \<Rightarrow>
                                 (case reshape (torch_eye 3) [1, 1, 3, 3] of
                                    Inl e \<Rightarrow> Inl e
                                  | Inr e3 \<Rightarrow> repeat e3 [batch_size, clip_length, 1, 1])
                             | Some t \<Rightarrow> Inr t)
                  in (case rot of
                        Inl e \<Rightarrow> Inl e
                      | Inr world_rot \<Rightarrow> Inr (world_loc, world_rot)))
      | _ \<Rightarrow> Inl ValueError)"

section \<open>The projection module and its collaborators\<close>

text \<open>
  \<open>MovementsModelOutputType\<close> and \<open>TrajectoryModelOutputType\<close> select, when the module
  is built, how absolute poses and world transforms are computed.
\<close>

datatype MovementsModelOutputType =
    Movements_pose_changes
  | Movements_absolute_loc
  | Movements_absolute_loc_rot
  | Movements_relative_rot

datatype TrajectoryModelOutputType =
    Trajectory_changes
  | Trajectory_loc_rot

text \<open>The pose inputs of \<open>project_pose\<close>: one tensor, or a tuple of two.\<close>

datatype pose_inputs =
    Tensor tensor
  | Tuple tensor tensor

text \<open>
  Calls to code outside \<open>projection.py\<close>, recorded in the order in which they are made,
  with their arguments. \<open>'ped\<close> is a \<open>ControlledPedestrian\<close> (its \<open>current_pose\<close> is the
  \<open>P3dPose\<close> whose methods are called), \<open>'cam\<close> a \<open>P3dPoseProjection\<close>.
\<close>

datatype ('ped, 'cam) call =
    ControlledPedestrian_init string string "string option"
  | P3dPoseProjection_init 'ped
  | P3dPoseProjection_forward 'cam tensor tensor tensor
  | P3dPose_forward 'ped tensor tensor tensor
  | P3dPose_relative_to_absolute 'ped tensor tensor
  | Denormalize_from_abs pose_inputs "string list" "string list"
  | World_from_changes "nat list" "tensor option" "tensor option" "tensor option" "tensor option"
  | Euler_angles_to_matrix tensor
  | Projection_transform tensor
  | Process_projection_2d tensor

text \<open>
  The collaborators themselves are parameters of the model: the classes
  \<open>ControlledPedestrian\<close>, \<open>P3dPose\<close>, \<open>P3dPoseProjection\<close> and
  \<open>ReferenceSkeletonsDenormalize\<close>, the function \<open>calculate_world_from_changes\<close>, the mixin
  method \<open>process_projection_2d\<close>, pytorch3d's \<open>euler_angles_to_matrix\<close>, the transform
  of the projection that the module is built with (\<open>projection_transform\<close>), and the
  contents of freshly allocated memory. Each of them may raise. The methods of a pose and
  of a pose projection are functions of the object and of their arguments.
\<close>

record ('ped, 'cam) collaborators =
  new_ControlledPedestrian :: "string \<Rightarrow> string \<Rightarrow> string option \<Rightarrow> error + 'ped"
  age_of :: "'ped \<Rightarrow> string"
  gender_of :: "'ped \<Rightarrow> string"
  current_pose_tensors :: "'ped \<Rightarrow> tensor \<times> tensor"
  pose_forward :: "'ped \<Rightarrow> tensor \<Rightarrow> tensor \<Rightarrow> tensor \<Rightarrow> error + (tensor \<times> tensor \<times> tensor)"
  pose_relative_to_absolute :: "'ped \<Rightarrow> tensor \<Rightarrow> tensor \<Rightarrow> error + (tensor \<times> tensor)"
  new_P3dPoseProjection :: "'ped \<Rightarrow> error + 'cam"
  pose_projection_forward :: "'cam \<Rightarrow> tensor \<Rightarrow> tensor \<Rightarrow> tensor \<Rightarrow> error + tensor"
  denormalize_from_abs :: "pose_inputs \<Rightarrow> string list \<Rightarrow> string list \<Rightarrow> error + tensor"
  world_from_changes ::
    "nat list \<Rightarrow> tensor option \<Rightarrow> tensor option \<Rightarrow> tensor option \<Rightarrow> tensor option
       \<Rightarrow> error + (tensor \<times> tensor)"
  euler_angles_to_matrix :: "tensor \<Rightarrow> error + tensor"
  projection_transform :: "tensor \<Rightarrow> error + tensor"
  process_projection_2d :: "tensor \<Rightarrow> error + (tensor \<times> (string \<times> tensor) list)"
  fresh_memory :: "nat list \<Rightarrow> real"

text \<open>
  A computation returns its result, or the exception it raised, together with the calls
  it made up to that point.
\<close>

type_synonym ('a, 'ped, 'cam) io = "(error + 'a) \<times> ('ped, 'cam) call list"

definition io_return :: "'a \<Rightarrow> ('a, 'ped, 'cam) io" where
  "io_return a = (Inr a, [])"

definition io_raise :: "error \<Rightarrow> ('a, 'ped, 'cam) io" where
  "io_raise e = (Inl e, [])"

definition io_lift :: "error + 'a \<Rightarrow> ('a, 'ped, 'cam) io" where
  "io_lift r = (r, [])"

definition io_call :: "('ped, 'cam) call \<Rightarrow> error + 'a \<Rightarrow> ('a, 'ped, 'cam) io" where
  "io_call c r = (r, [c])"

definition io_bind ::
  "('a, 'ped, 'cam) io \<Rightarrow> ('a \<Rightarrow> ('b, 'ped, 'cam) io) \<Rightarrow> ('b, 'ped, 'cam) io" where
  "io_bind m f =
     (case m of
        (Inl e, calls) \<Rightarrow> (Inl e, calls)
      | (Inr a, calls) \<Rightarrow> (case f a of (r, calls') \<Rightarrow> (r, calls @ calls')))"

text \<open>
  The state of a \<open>ProjectionModule\<close>: the two output types, fixed when it is built, and
  the four attributes that are \<open>None\<close> until \<open>on_batch_start\<close> sets them.
\<close>

record ('ped, 'cam) ProjectionModule =
  movements_output_type :: MovementsModelOutputType
  trajectory_output_type :: TrajectoryModelOutputType
  pedestrians :: "'ped list option"
  pose_projection :: "'cam option"
  world_locations :: "tensor option"
  world_rotations :: "tensor option"


subsection \<open>\<open>on_batch_start\<close>\<close>

text \<open>
  One element of the list comprehension: reads \<open>meta['age'][idx]\<close> and
  \<open>meta['gender'][idx]\<close> (a missing key or a short list raises), the reference pose when
  the metadata has that key and \<open>None\<close> otherwise, and builds the pedestrian.
\<close>

definition meta_lookup :: "(string \<rightharpoonup> string list) \<Rightarrow> string \<Rightarrow> nat \<Rightarrow> error + string" where
  "meta_lookup meta key idx =
     (case meta key of
        None \<Rightarrow> Inl KeyError
      | Some vs \<Rightarrow> if idx < length vs then Inr (vs ! idx) else Inl IndexError)"

definition new_pedestrian ::
  "('ped, 'cam) collaborators \<Rightarrow> (string \<rightharpoonup> string list) \<Rightarrow> nat \<Rightarrow> ('ped, 'ped, 'cam) io" where
  "new_pedestrian lib meta idx =
     io_bind (io_lift (meta_lookup meta ''age'' idx)) (\<lambda>age.
     io_bind (io_lift (meta_lookup meta ''gender'' idx)) (\<lambda>gender.
     io_bind (io_lift (if meta ''reference_pose'' = None then Inr None
                       else map_sum id Some (meta_lookup meta ''reference_pose'' idx)))
       (\<lambda>reference_pose.
     io_call (ControlledPedestrian_init age gender reference_pose)
       (new_ControlledPedestrian lib age gender reference_pose))))"

fun new_pedestrians ::
  "('ped, 'cam) collaborators \<Rightarrow> (string \<rightharpoonup> string list) \<Rightarrow> nat list
     \<Rightarrow> ('ped list, 'ped, 'cam) io" where
  "new_pedestrians lib meta [] = io_return []"
| "new_pedestrians lib meta (idx # rest) =
     io_bind (new_pedestrian lib meta idx) (\<lambda>p.
     io_bind (new_pedestrians lib meta rest) (\<lambda>ps.
     io_return (p # ps)))"

text \<open>
  \<open>on_batch_start\<close> changes the module. The result is the exception, if one was raised,
  the module as the call leaves it, and the calls made: a pedestrian for each clip of the
  batch, one pose projection from the first pedestrian, zero world locations and identity
  world rotations.
\<close>

definition on_batch_start ::
  "('ped, 'cam) collaborators \<Rightarrow> tensor \<times> 'b \<times> (string \<rightharpoonup> string list) \<Rightarrow> nat
     \<Rightarrow> ('ped, 'cam) ProjectionModule
     \<Rightarrow> (error + unit) \<times> ('ped, 'cam) ProjectionModule \<times> ('ped, 'cam) call list" where
  "on_batch_start lib batch batch_idx self =
     (case batch of (frames, _, meta) \<Rightarrow>
      (case len frames of
         Inl e \<Rightarrow> (Inl e, self, [])
       | Inr batch_size \<Rightarrow>
         (case new_pedestrians lib meta [0..<batch_size] of
            (Inl e, calls) \<Rightarrow> (Inl e, self, calls)
          | (Inr peds, calls) \<Rightarrow>
            let self1 = self\<lparr>pedestrians := Some peds\<rparr>
            in (case peds of
                  [] \<Rightarrow> (Inl IndexError, self1, calls)
                | first # _ \<Rightarrow>
                  let calls1 = calls @ [P3dPoseProjection_init first]
                  in (case new_P3dPoseProjection lib first of
                        Inl e \<Rightarrow> (Inl e, self1, calls1)
                      | Inr cam \<Rightarrow>
                        let self2 = self1\<lparr>pose_projection := Some cam,
                                          world_locations := Some (torch_zeros [batch_size, 3])\<rparr>
                        in (case (case reshape (torch_eye 3) [1, 3, 3] of
                                    Inl e \<Rightarrow> Inl e
                                  | Inr e3 \<Rightarrow> repeat e3 [batch_size, 1, 1]) of
                              Inl e \<Rightarrow> (Inl e, self2, calls1)
                            | Inr rots \<Rightarrow>
                                (Inr (), self2\<lparr>world_rotations := Some rots\<rparr>, calls1)))))))"

subsection \<open>Absolute poses\<close>

text \<open>
  \<open>get_reference_tensors\<close>: the relative locations and rotations of all pedestrians,
  stacked. Iterating over \<open>None\<close> raises, and so does unpacking the two tuples when there
  is no pedestrian.
\<close>

definition get_reference_tensors ::
  "('ped, 'cam) collaborators \<Rightarrow> ('ped, 'cam) ProjectionModule \<Rightarrow> error + (tensor \<times> tensor)" where
  "get_reference_tensors lib self =
     (case pedestrians self of
        None \<Rightarrow> Inl TypeError
      | Some [] \<Rightarrow> Inl ValueError
      | Some peds \<Rightarrow>
          (case stack (map (\<lambda>p. fst (current_pose_tensors lib p)) peds) of
             Inl e \<Rightarrow> Inl e
           | Inr prev_relative_loc \<Rightarrow>
               (case stack (map (\<lambda>p. snd (current_pose_tensors lib p)) peds) of
                  Inl e \<Rightarrow> Inl e
                | Inr prev_relative_rot \<Rightarrow> Inr (prev_relative_loc, prev_relative_rot))))"

text \<open>\<open>self.__pedestrians[0]\<close>.\<close>

definition first_pedestrian :: "('ped, 'cam) ProjectionModule \<Rightarrow> error + 'ped" where
  "first_pedestrian self =
     (case pedestrians self of
        None \<Rightarrow> Inl TypeError
      | Some [] \<Rightarrow> Inl IndexError
      | Some (p # _) \<Rightarrow> Inr p)"

text \<open>
  The loop of \<open>_calculate_abs_from_pose_changes\<close> over the frames \<open>range(clip_length)\<close>:
  each frame calls \<open>pose.forward\<close> with the changes of that frame, the reference relative
  locations and the relative rotations that the previous call returned, and writes the
  absolute locations and rotations into frame \<open>i\<close> of the outputs.
\<close>

fun pose_changes_loop ::
  "('ped, 'cam) collaborators \<Rightarrow> 'ped \<Rightarrow> tensor \<Rightarrow> tensor \<Rightarrow> nat list
     \<Rightarrow> tensor \<times> tensor \<times> tensor \<Rightarrow> (tensor \<times> tensor \<times> tensor, 'ped, 'cam) io" where
  "pose_changes_loop lib pose pose_inputs_batch prev_relative_loc [] acc = io_return acc"
| "pose_changes_loop lib pose pose_inputs_batch prev_relative_loc (i # frames)
       (absolute_loc, absolute_rot, prev_relative_rot) =
     io_bind (io_lift (select1 pose_inputs_batch i)) (\<lambda>changes.
     io_bind (io_call (P3dPose_forward pose changes prev_relative_loc prev_relative_rot)
                (pose_forward lib pose changes prev_relative_loc prev_relative_rot))
       (\<lambda>(loc, rot, relative_rot).
     io_bind (io_lift (assign1 absolute_loc i loc)) (\<lambda>absolute_loc'.
     io_bind (io_lift (assign1 absolute_rot i rot)) (\<lambda>absolute_rot'.
     pose_changes_loop lib pose pose_inputs_batch prev_relative_loc frames
       (absolute_loc', absolute_rot', relative_rot)))))"

definition calculate_abs_from_pose_changes ::
  "('ped, 'cam) collaborators \<Rightarrow> ('ped, 'cam) ProjectionModule \<Rightarrow> pose_inputs
     \<Rightarrow> (tensor \<times> tensor option, 'ped, 'cam) io" where
  "calculate_abs_from_pose_changes lib self pose_inputs_batch =
     (case pose_inputs_batch of
        Tuple _ _ \<Rightarrow> io_raise AttributeError
      | Tensor t \<Rightarrow>
          (case shape t of
             batch_size # clip_length # points # _ \<Rightarrow>
               io_bind (io_lift (get_reference_tensors lib self))
                 (\<lambda>(prev_relative_loc, prev_relative_rot).
               let absolute_loc =
                     torch_empty (fresh_memory lib) [batch_size, clip_length, points, 3];
                   absolute_rot =
                     torch_empty (fresh_memory lib) [batch_size, clip_length, points, 3, 3]
               in io_bind (io_lift (first_pedestrian self)) (\<lambda>pose.
                  io_bind (pose_changes_loop lib pose t prev_relative_loc [0..<clip_length]
                             (absolute_loc, absolute_rot, prev_relative_rot))
                    (\<lambda>(absolute_loc', absolute_rot', _).
                  io_return (absolute_loc', Some absolute_rot'))))
           | _ \<Rightarrow> io_raise ValueError))"

text \<open>
  The loop of \<open>_calculate_abs_from_relative_rot\<close>: each frame calls
  \<open>pose.relative_to_absolute\<close> with the reference relative locations and the rotations of
  that frame.
\<close>

fun relative_rot_loop ::
  "('ped, 'cam) collaborators \<Rightarrow> 'ped \<Rightarrow> tensor \<Rightarrow> tensor \<Rightarrow> nat list
     \<Rightarrow> tensor \<times> tensor \<Rightarrow> (tensor \<times> tensor, 'ped, 'cam) io" where
  "relative_rot_loop lib pose pose_inputs_batch prev_relative_loc [] acc = io_return acc"
| "relative_rot_loop lib pose pose_inputs_batch prev_relative_loc (i # frames)
       (absolute_loc, absolute_rot) =
     io_bind (io_lift (select1 pose_inputs_batch i)) (\<lambda>rotations.
     io_bind (io_call (P3dPose_relative_to_absolute pose prev_relative_loc rotations)
                (pose_relative_to_absolute lib pose prev_relative_loc rotations))
       (\<lambda>(loc, rot).
     io_bind (io_lift (assign1 absolute_loc i loc)) (\<lambda>absolute_loc'.
     io_bind (io_lift (assign1 absolute_rot i rot)) (\<lambda>absolute_rot'.
     relative_rot_loop lib pose pose_inputs_batch prev_relative_loc frames
       (absolute_loc', absolute_rot')))))"

text \<open>
  \<open>shape_3d\<close> is the last three entries of the shape with a 1 in front; the batch size
  is divided by its first entry (\<open>int(batch_size / shape_3d[0])\<close>, which on sizes that a
  float holds exactly is the integer quotient, and raises on 0).
\<close>

definition expand_reference_loc :: "tensor \<Rightarrow> nat \<Rightarrow> error + tensor" where
  "expand_reference_loc prev_relative_loc batch_size =
     (let full = 1 # shape prev_relative_loc;
          shape_3d = drop (length full - 3) full
      in (case reshape prev_relative_loc shape_3d of
            Inl e \<Rightarrow> Inl e
          | Inr reshaped \<Rightarrow>
              if hd shape_3d = 0 then Inl ZeroDivisionError
              else repeat reshaped [batch_size div hd shape_3d, 1, 1]))"

definition calculate_abs_from_relative_rot ::
  "('ped, 'cam) collaborators \<Rightarrow> ('ped, 'cam) ProjectionModule \<Rightarrow> pose_inputs
     \<Rightarrow> (tensor \<times> tensor option, 'ped, 'cam) io" where
  "calculate_abs_from_relative_rot lib self pose_inputs_batch =
     (case pose_inputs_batch of
        Tuple _ _ \<Rightarrow> io_raise AttributeError
      | Tensor t \<Rightarrow>
          (case shape t of
             batch_size # clip_length # points # _ \<Rightarrow>
               io_bind (io_lift (get_reference_tensors lib self)) (\<lambda>(reference_loc, _).
               io_bind (io_lift (expand_reference_loc reference_loc batch_size))
                 (\<lambda>prev_relative_loc.
               let absolute_loc =
                     torch_empty (fresh_memory lib) [batch_size, clip_length, points, 3];
                   absolute_rot =
                     torch_empty (fresh_memory lib) [batch_size, clip_length, points, 3, 3]
               in io_bind (io_lift (first_pedestrian self)) (\<lambda>pose.
                  io_bind (relative_rot_loop lib pose t prev_relative_loc [0..<clip_length]
                             (absolute_loc, absolute_rot))
                    (\<lambda>(absolute_loc', absolute_rot').
                  io_return (absolute_loc', Some absolute_rot')))))
           | _ \<Rightarrow> io_raise ValueError))"

text \<open>
  \<open>_calculate_abs_from_abs_loc_output\<close> hands the inputs and the ages and genders of the
  pedestrians to the denormalization; there are no absolute rotations.
\<close>

definition calculate_abs_from_abs_loc_output ::
  "('ped, 'cam) collaborators \<Rightarrow> ('ped, 'cam) ProjectionModule \<Rightarrow> pose_inputs
     \<Rightarrow> (tensor \<times> tensor option, 'ped, 'cam) io" where
  "calculate_abs_from_abs_loc_output lib self pose_inputs_batch =
     (case pedestrians self of
        None \<Rightarrow> io_raise TypeError
      | Some peds \<Rightarrow>
          let ages = map (age_of lib) peds;
              genders = map (gender_of lib) peds
          in io_bind (io_call (Denormalize_from_abs pose_inputs_batch ages genders)
                        (denormalize_from_abs lib pose_inputs_batch ages genders))
               (\<lambda>absolute_loc. io_return (absolute_loc, None)))"

text \<open>\<open>pose_inputs_batch[k]\<close> for \<open>k\<close> = 0, 1: a part of the tuple, or a row of the tensor.\<close>

definition pose_inputs_item :: "pose_inputs \<Rightarrow> nat \<Rightarrow> error + tensor" where
  "pose_inputs_item pose_inputs_batch k =
     (case pose_inputs_batch of
        Tuple a b \<Rightarrow> if k = 0 then Inr a else if k = 1 then Inr b else Inl IndexError
      | Tensor t \<Rightarrow> select0 t k)"

definition calculate_abs_from_abs_loc_rot_output ::
  "('ped, 'cam) collaborators \<Rightarrow> ('ped, 'cam) ProjectionModule \<Rightarrow> pose_inputs
     \<Rightarrow> (tensor \<times> tensor option, 'ped, 'cam) io" where
  "calculate_abs_from_abs_loc_rot_output lib self pose_inputs_batch =
     io_bind (io_lift (pose_inputs_item pose_inputs_batch 0)) (\<lambda>locations.
     io_bind (calculate_abs_from_abs_loc_output lib self (Tensor locations))
       (\<lambda>(absolute_loc, _).
     io_bind (io_lift (pose_inputs_item pose_inputs_batch 1)) (\<lambda>absolute_rot.
     io_return (absolute_loc, Some absolute_rot))))"

text \<open>The strategy bound to \<open>__calculate_abs\<close> when the module is built.\<close>

definition calculate_abs ::
  "('ped, 'cam) collaborators \<Rightarrow> ('ped, 'cam) ProjectionModule \<Rightarrow> pose_inputs
     \<Rightarrow> (tensor \<times> tensor option, 'ped, 'cam) io" where
  "calculate_abs lib self pose_inputs_batch =
     (case movements_output_type self of
        Movements_pose_changes \<Rightarrow> calculate_abs_from_pose_changes lib self pose_inputs_batch
      | Movements_absolute_loc \<Rightarrow> calculate_abs_from_abs_loc_output lib self pose_inputs_batch
      | Movements_absolute_loc_rot \<Rightarrow>
          calculate_abs_from_abs_loc_rot_output lib self pose_inputs_batch
      | Movements_relative_rot \<Rightarrow> calculate_abs_from_relative_rot lib self pose_inputs_batch)"

text \<open>
  \<open>_calculate_world_from_changes\<close> passes the shape of the absolute locations, the
  changes, and the module's world locations and rotations to
  \<open>calculate_world_from_changes\<close>. The strategy bound to \<open>__calculate_world\<close> is chosen
  by the trajectory output type.
\<close>

definition calculate_world ::
  "('ped, 'cam) collaborators \<Rightarrow> ('ped, 'cam) ProjectionModule \<Rightarrow> tensor
     \<Rightarrow> tensor option \<Rightarrow> tensor option \<Rightarrow> (tensor \<times> tensor, 'ped, 'cam) io" where
  "calculate_world lib self absolute_loc world_loc_change_batch world_rot_change_batch =
     (case trajectory_output_type self of
        Trajectory_changes \<Rightarrow>
          io_call (World_from_changes (shape absolute_loc) world_loc_change_batch
                     world_rot_change_batch (world_locations self) (world_rotations self))
            (world_from_changes lib (shape absolute_loc) world_loc_change_batch
               world_rot_change_batch (world_locations self) (world_rotations self))
      | Trajectory_loc_rot \<Rightarrow>
          io_lift (calculate_world_from_loc_rot absolute_loc world_loc_change_batch
                     world_rot_change_batch))"

subsection \<open>\<open>project_pose\<close>\<close>

text \<open>\<open>pose_inputs_batch.ndim\<close>: a tuple has no such attribute.\<close>

definition ndim_of :: "pose_inputs \<Rightarrow> error + nat" where
  "ndim_of pose_inputs_batch =
     (case pose_inputs_batch of Tensor t \<Rightarrow> Inr (ndim t) | Tuple _ _ \<Rightarrow> Inl AttributeError)"

definition is_tuple :: "pose_inputs \<Rightarrow> bool" where
  "is_tuple pose_inputs_batch =
     (case pose_inputs_batch of Tensor _ \<Rightarrow> False | Tuple _ _ \<Rightarrow> True)"

text \<open>
  The checks at the head of \<open>project_pose\<close>, in the order of the \<open>if\<close>/\<open>elif\<close> chain:
  the exception they raise, if any. Pose changes need five axes, absolute locations four,
  absolute locations with rotations a tuple.
\<close>

definition project_pose_guard :: "MovementsModelOutputType \<Rightarrow> pose_inputs \<Rightarrow> error option" where
  "project_pose_guard output_type pose_inputs_batch =
     (if output_type = Movements_pose_changes
      then (case ndim_of pose_inputs_batch of
              Inl e \<Rightarrow> Some e
            | Inr n \<Rightarrow> if n < 5 then Some RuntimeError else None)
      else if output_type = Movements_absolute_loc
      then (case ndim_of pose_inputs_batch of
              Inl e \<Rightarrow> Some e
            | Inr n \<Rightarrow> if n < 4 then Some RuntimeError else None)
      else if output_type = Movements_absolute_loc_rot \<and> \<not> is_tuple pose_inputs_batch
      then Some RuntimeError
      else None)"

text \<open>
  The loop over the frames \<open>range(absolute_loc.shape[1])\<close>: each frame is projected by
  the module's pose projection and written into frame \<open>i\<close> of the projections.
\<close>

fun projection_loop ::
  "('ped, 'cam) collaborators \<Rightarrow> ('ped, 'cam) ProjectionModule \<Rightarrow> tensor \<Rightarrow> tensor \<Rightarrow> tensor
     \<Rightarrow> nat list \<Rightarrow> tensor \<Rightarrow> (tensor, 'ped, 'cam) io" where
  "projection_loop lib self absolute_loc world_loc world_rot [] projections =
     io_return projections"
| "projection_loop lib self absolute_loc world_loc world_rot (i # frames) projections =
     io_bind (io_lift (case pose_projection self of
                         None \<Rightarrow> Inl AttributeError
                       | Some cam \<Rightarrow> Inr cam)) (\<lambda>cam.
     io_bind (io_lift (select1 absolute_loc i)) (\<lambda>loc.
     io_bind (io_lift (select1 world_loc i)) (\<lambda>wloc.
     io_bind (io_lift (select1 world_rot i)) (\<lambda>wrot.
     io_bind (io_call (P3dPoseProjection_forward cam loc wloc wrot)
                (pose_projection_forward lib cam loc wloc wrot)) (\<lambda>projected.
     io_bind (io_lift (assign1 projections i projected)) (\<lambda>projections'.
     projection_loop lib self absolute_loc world_loc world_rot frames projections'))))))"

text \<open>\<open>absolute_loc.shape[1]\<close>.\<close>

definition shape_1 :: "tensor \<Rightarrow> error + nat" where
  "shape_1 t = (case shape t of _ # d1 # _ \<Rightarrow> Inr d1 | _ \<Rightarrow> Inl IndexError)"

definition project_pose ::
  "('ped, 'cam) collaborators \<Rightarrow> ('ped, 'cam) ProjectionModule \<Rightarrow> pose_inputs
     \<Rightarrow> tensor option \<Rightarrow> tensor option
     \<Rightarrow> (tensor \<times> tensor \<times> tensor option \<times> tensor \<times> tensor, 'ped, 'cam) io" where
  "project_pose lib self pose_inputs_batch world_loc_change_batch world_rot_change_batch =
     (case project_pose_guard (movements_output_type self) pose_inputs_batch of
        Some e \<Rightarrow> io_raise e
      | None \<Rightarrow>
          io_bind (calculate_abs lib self pose_inputs_batch) (\<lambda>(absolute_loc, absolute_rot).
          io_bind (calculate_world lib self absolute_loc world_loc_change_batch
                     world_rot_change_batch) (\<lambda>(world_loc, world_rot).
          let projections = torch_empty_like (fresh_memory lib) absolute_loc
          in io_bind (io_lift (shape_1 absolute_loc)) (\<lambda>clip_length.
             io_bind (projection_loop lib self absolute_loc world_loc world_rot
                        [0..<clip_length] projections) (\<lambda>projections'.
             io_return (projections', absolute_loc, absolute_rot, world_loc, world_rot))))))"

subsection \<open>\<open>forward\<close> and calls of the module\<close>

text \<open>
  \<open>ProjectionModule.forward\<close>: projects the pose, normalizes the projection with the
  transform of the module, and returns six values.
\<close>

definition forward ::
  "('ped, 'cam) collaborators \<Rightarrow> ('ped, 'cam) ProjectionModule \<Rightarrow> pose_inputs
     \<Rightarrow> tensor option \<Rightarrow> tensor option
     \<Rightarrow> (tensor \<times> tensor \<times> tensor \<times> tensor option \<times> tensor \<times> tensor, 'ped, 'cam) io" where
  "forward lib self pose_inputs world_loc_inputs world_rot_inputs =
     io_bind (project_pose lib self pose_inputs world_loc_inputs world_rot_inputs)
       (\<lambda>(projected_pose, absolute_pose_loc, absolute_pose_rot, world_loc, world_rot).
     io_bind (io_call (Projection_transform projected_pose)
                (projection_transform lib projected_pose)) (\<lambda>normalized_projection.
     io_return (projected_pose, normalized_projection, absolute_pose_loc, absolute_pose_rot,
                world_loc, world_rot)))"

text \<open>
  A call of the module with keyword arguments, \<open>module(k1=v1, ...)\<close>: \<open>Module.__call__\<close>
  of torch passes the arguments on to \<open>forward\<close>, whose parameters are \<open>pose_inputs\<close>,
  \<open>world_loc_inputs\<close> and \<open>world_rot_inputs\<close>, the last two with the default \<open>None\<close>.
  A keyword that is not the name of a parameter raises \<open>TypeError\<close>, and so does a call
  without \<open>pose_inputs\<close>.
\<close>

definition forward_parameters :: "string list" where
  "forward_parameters = [''pose_inputs'', ''world_loc_inputs'', ''world_rot_inputs'']"

definition call_module ::
  "('ped, 'cam) collaborators \<Rightarrow> ('ped, 'cam) ProjectionModule \<Rightarrow> (string \<times> tensor) list
     \<Rightarrow> (tensor \<times> tensor \<times> tensor \<times> tensor option \<times> tensor \<times> tensor, 'ped, 'cam) io" where
  "call_module lib self kwargs =
     (if list_ex (\<lambda>(keyword, _). keyword \<notin> set forward_parameters) kwargs
      then io_raise TypeError
      else (case map_of kwargs ''pose_inputs'' of
              None \<Rightarrow> io_raise TypeError
            | Some pose_inputs \<Rightarrow>
                forward lib self (Tensor pose_inputs) (map_of kwargs ''world_loc_inputs'')
                  (map_of kwargs ''world_rot_inputs'')))"

section \<open>The synthetic generator\<close>

text \<open>
  \<open>Carla2D3DIterableDataset\<close>: the clip length and the projection module it owns. What
  \<open>generate_batch\<close> draws at random is an input of the model: the Euler angles of the
  pose changes and of the world rotation changes, as the random loops leave them, and the
  ages and genders. The batch size is the one in use, the argument or the default.

  The generator calls its projection module with the keywords \<open>pose_inputs_batch\<close>,
  \<open>world_rot_change_batch\<close> and \<open>world_loc_change_batch\<close>, and unpacks what the call
  returns into two names, the projection and a dictionary of outputs.
\<close>

record ('ped, 'cam) Carla2D3DIterableDataset =
  ds_clip_length :: nat
  ds_projection :: "('ped, 'cam) ProjectionModule"


record random_draws =
  drawn_pose_changes :: tensor
  drawn_world_rot_change :: tensor
  drawn_age :: "string list"
  drawn_gender :: "string list"

text \<open>
  \<open>orig_projection_2d, projection_outputs = ...\<close>: unpacking the six values that
  \<open>forward\<close> returns into two names raises \<open>ValueError\<close>.
\<close>

definition unpack_two ::
  "tensor \<times> tensor \<times> tensor \<times> tensor option \<times> tensor \<times> tensor
     \<Rightarrow> error + (tensor \<times> (string \<times> tensor) list)" where
  "unpack_two values = Inl ValueError"

text \<open>
  The statements of \<open>generate_batch\<close> after the call of the module: the third channel
  of the projection is set to 1, the projection is processed, and the batch is put
  together. The targets are a dictionary, here the list of its items in the order in which
  they are written (a later item replaces an earlier one of the same key).
\<close>

definition generate_batch_tail ::
  "('ped, 'cam) collaborators \<Rightarrow> tensor \<times> (string \<times> tensor) list
     \<Rightarrow> tensor \<Rightarrow> tensor \<Rightarrow> tensor \<Rightarrow> string list \<times> string list
     \<Rightarrow> (tensor \<times> (string \<times> tensor) list \<times> (string list \<times> string list), 'ped, 'cam) io" where
  "generate_batch_tail lib unpacked pose_changes_batch world_loc_change_batch
       world_rot_change_batch meta =
     (case unpacked of (projected, projection_outputs) \<Rightarrow>
        io_bind (io_lift (assign_last projected 2 1)) (\<lambda>orig_projection_2d.
        io_bind (io_call (Process_projection_2d orig_projection_2d)
                   (process_projection_2d lib orig_projection_2d))
          (\<lambda>(projection_2d, projection_targets).
        io_return (projection_2d,
                   projection_targets @
                   [(''pose_changes'', pose_changes_batch),
                    (''world_loc_changes'', world_loc_change_batch),
                    (''world_rot_changes'', world_rot_change_batch)] @
                   projection_outputs,
                   meta))))"

text \<open>
  \<open>generate_batch\<close>: the Euler angles become rotation matrices, the batch is started on
  the projection module, the module is called, and the result is unpacked and finished.
\<close>

definition generate_batch ::
  "('ped, 'cam) collaborators \<Rightarrow> ('ped, 'cam) Carla2D3DIterableDataset \<Rightarrow> random_draws \<Rightarrow> nat
     \<Rightarrow> (error + (tensor \<times> (string \<times> tensor) list \<times> (string list \<times> string list)))
         \<times> ('ped, 'cam) ProjectionModule \<times> ('ped, 'cam) call list" where
  "generate_batch lib self draws batch_size =
     (let world_loc_change_batch = torch_zeros [batch_size, ds_clip_length self, 3];
          module = ds_projection self
      in (case euler_angles_to_matrix lib (drawn_pose_changes draws) of
            Inl e \<Rightarrow> (Inl e, module, [Euler_angles_to_matrix (drawn_pose_changes draws)])
          | Inr pose_changes_batch \<Rightarrow>
            let calls1 = [Euler_angles_to_matrix (drawn_pose_changes draws),
                          Euler_angles_to_matrix (drawn_world_rot_change draws)]
            in (case euler_angles_to_matrix lib (drawn_world_rot_change draws) of
                  Inl e \<Rightarrow> (Inl e, module, calls1)
                | Inr world_rot_change_batch \<Rightarrow>
                  (case on_batch_start lib
                          (pose_changes_batch, (),
                           [''age'' \<mapsto> drawn_age draws, ''gender'' \<mapsto> drawn_gender draws])
                          0 module of
                     (Inl e, module', calls2) \<Rightarrow> (Inl e, module', calls1 @ calls2)
                   | (Inr _, module', calls2) \<Rightarrow>
                     (case io_bind
                             (call_module lib module'
                                [(''pose_inputs_batch'', pose_changes_batch),
                                 (''world_rot_change_batch'', world_rot_change_batch),
                                 (''world_loc_change_batch'', world_loc_change_batch)])
                             (\<lambda>values.
                           io_bind (io_lift (unpack_two values)) (\<lambda>unpacked.
                           generate_batch_tail lib unpacked pose_changes_batch
                             world_loc_change_batch world_rot_change_batch
                             (drawn_age draws, drawn_gender draws))) of
                        (result, calls3) \<Rightarrow> (result, module', calls1 @ calls2 @ calls3))))))"

section \<open>The mixed dataset\<close>

text \<open>
  Metadata values and the types of the metadata columns. \<open>numpy_nan_item\<close> is
  \<open>numpy.array([numpy.nan], dtype=d).item()\<close>: the text \<open>nan\<close> for strings, NaN for
  floats, \<open>True\<close> for booleans, and an exception for integers.
\<close>

datatype dtype = Dtype_str | Dtype_float | Dtype_int | Dtype_bool

datatype scalar = Str string | Float real | Float_nan | Int int | Bool bool

definition numpy_nan_item :: "dtype \<Rightarrow> error + scalar" where
  "numpy_nan_item d =
     (case d of
        Dtype_str \<Rightarrow> Inr (Str ''nan'')
      | Dtype_float \<Rightarrow> Inr Float_nan
      | Dtype_int \<Rightarrow> Inl ValueError
      | Dtype_bool \<Rightarrow> Inr (Bool True))"

text \<open>
  The templates that \<open>MixedDataset.__init__\<close> computes: for every target its type and
  shape, and for every metadata field its type (\<open>None\<close> when metadata is skipped).
\<close>

record 'dt MixedDataset =
  targets_template :: "(string \<times> 'dt \<times> nat list) list"
  meta_template :: "(string \<times> dtype) list option"

text \<open>
  The two loops of \<open>__getitem__\<close>. A target that the item lacks is a tensor full of NaN
  (\<open>nan_tensor\<close>, numpy's \<open>full\<close>); a metadata field that the item lacks is NaN converted
  to the type of the field; a field that the item has is converted by numpy (\<open>convert\<close>).
\<close>

fun common_targets_of ::
  "('dt \<Rightarrow> nat list \<Rightarrow> error + 'tgt) \<Rightarrow> (string \<times> 'dt \<times> nat list) list \<Rightarrow> (string \<rightharpoonup> 'tgt)
     \<Rightarrow> error + (string \<times> 'tgt) list" where
  "common_targets_of nan_tensor [] targets = Inr []"
| "common_targets_of nan_tensor ((key, template_dtype, template_shape) # rest) targets =
     (case (case targets key of
              Some v \<Rightarrow> Inr v
            | None \<Rightarrow> nan_tensor template_dtype template_shape) of
        Inl e \<Rightarrow> Inl e
      | Inr v \<Rightarrow>
          (case common_targets_of nan_tensor rest targets of
             Inl e \<Rightarrow> Inl e
           | Inr vs \<Rightarrow> Inr ((key, v) # vs)))"

fun common_meta_of ::
  "(dtype \<Rightarrow> scalar \<Rightarrow> error + scalar) \<Rightarrow> (string \<times> dtype) list \<Rightarrow> (string \<rightharpoonup> scalar)
     \<Rightarrow> error + (string \<times> scalar) list" where
  "common_meta_of convert [] meta = Inr []"
| "common_meta_of convert ((key, template_dtype) # rest) meta =
     (case (case meta key of
              Some v \<Rightarrow> convert template_dtype v
            | None \<Rightarrow> numpy_nan_item template_dtype) of
        Inl e \<Rightarrow> Inl e
      | Inr v \<Rightarrow>
          (case common_meta_of convert rest meta of
             Inl e \<Rightarrow> Inl e
           | Inr vs \<Rightarrow> Inr ((key, v) # vs)))"

text \<open>\<open>MixedDataset.__getitem__\<close>, on the item that the concatenated dataset returns.\<close>

definition MixedDataset_getitem ::
  "(dtype \<Rightarrow> scalar \<Rightarrow> error + scalar) \<Rightarrow> ('dt \<Rightarrow> nat list \<Rightarrow> error + 'tgt) \<Rightarrow> 'dt MixedDataset
     \<Rightarrow> 'p \<times> (string \<rightharpoonup> 'tgt) \<times> (string \<rightharpoonup> scalar)
     \<Rightarrow> error + ('p \<times> (string \<times> 'tgt) list \<times> (string \<times> scalar) list)" where
  "MixedDataset_getitem convert nan_tensor self item =
     (case item of (projection_2d, targets, meta) \<Rightarrow>
        (case common_targets_of nan_tensor (targets_template self) targets of
           Inl e \<Rightarrow> Inl e
         | Inr common_targets \<Rightarrow>
             (case meta_template self of
                None \<Rightarrow> Inr (projection_2d, common_targets, [])
              | Some template \<Rightarrow>
                  (case common_meta_of convert template meta of
                     Inl e \<Rightarrow> Inl e
                   | Inr common_meta \<Rightarrow> Inr (projection_2d, common_targets, common_meta)))))"

section \<open>The denormalization\<close>

text \<open>
  Modelled from the spec: when the metadata entry of an instance is missing for
  \<open>ReferenceSkeletonsDenormalize.from_abs\<close>, which is not among the sources. The
  specification says that denormalization needs the reference metadata of every instance,
  the age and the gender category, with which the reference skeleton is looked up. An
  entry is missing when the ages or the genders have none at the position of the instance,
  or when no reference skeleton belongs to it.
\<close>

definition metadata_missing ::
  "(string \<times> string \<rightharpoonup> 'ref) \<Rightarrow> string list \<Rightarrow> string list \<Rightarrow> nat \<Rightarrow> bool" where
  "metadata_missing table ages genders idx =
     (length ages \<le> idx \<or> length genders \<le> idx \<or> table (ages ! idx, genders ! idx) = None)"

text \<open>
  Modelled from the spec: the lookup of the reference skeleton of one instance by
  \<open>ReferenceSkeletonsDenormalize.from_abs\<close>, which fails with \<open>MissingMetadataError\<close>
  for the instance when its metadata entry is missing.
\<close>

definition instance_reference ::
  "(string \<times> string \<rightharpoonup> 'ref) \<Rightarrow> string list \<Rightarrow> string list \<Rightarrow> nat \<Rightarrow> error + 'ref" where
  "instance_reference table ages genders idx =
     (if length ages \<le> idx \<or> length genders \<le> idx then Inl (MissingMetadataError idx)
      else (case table (ages ! idx, genders ! idx) of
              None \<Rightarrow> Inl (MissingMetadataError idx)
            | Some reference \<Rightarrow> Inr reference))"

text \<open>
  Modelled from the spec: the lookups of \<open>ReferenceSkeletonsDenormalize.from_abs\<close> for
  the instances of a batch, one after the other; the first failure ends them.
\<close>

fun instance_references ::
  "(string \<times> string \<rightharpoonup> 'ref) \<Rightarrow> string list \<Rightarrow> string list \<Rightarrow> nat list
     \<Rightarrow> error + 'ref list" where
  "instance_references table ages genders [] = Inr []"
| "instance_references table ages genders (idx # rest) =
     (case instance_reference table ages genders idx of
        Inl e \<Rightarrow> Inl e
      | Inr reference \<Rightarrow>
          (case instance_references table ages genders rest of
             Inl e \<Rightarrow> Inl e
           | Inr references \<Rightarrow> Inr (reference # references)))"

text \<open>
  Modelled from the spec: \<open>ReferenceSkeletonsDenormalize.from_abs\<close>, which is not among
  the sources: for every instance of the batch (the first axis of the points) the
  reference skeleton is looked up with the metadata of the instance, and the points are
  scaled with the reference skeletons. The table of the reference skeletons and the
  scaling (\<open>rescale\<close>) are parameters.
\<close>

definition from_abs_spec ::
  "(string \<times> string \<rightharpoonup> 'ref) \<Rightarrow> ('ref list \<Rightarrow> tensor \<Rightarrow> error + tensor)
     \<Rightarrow> pose_inputs \<Rightarrow> string list \<Rightarrow> string list \<Rightarrow> error + tensor" where
  "from_abs_spec table rescale points ages genders =
     (case points of
        Tuple _ _ \<Rightarrow> Inl AttributeError
      | Tensor t \<Rightarrow>
          (case len t of
             Inl e \<Rightarrow> Inl e
           | Inr n \<Rightarrow>
               (case instance_references table ages genders [0..<n] of
                  Inl e \<Rightarrow> Inl e
                | Inr references \<Rightarrow> rescale references t)))"

section \<open>The pose projection of the simulator\<close>

text \<open>
  CARLA's \<open>Location\<close>, \<open>Rotation\<close> and \<open>Transform\<close>. An argument that a constructor call
  leaves out is 0, so \<open>carla.Rotation(yaw=v)\<close> has pitch and roll 0.
\<close>

record carla_Location =
  loc_x :: real
  loc_y :: real
  loc_z :: real

record carla_Rotation =
  pitch :: real
  yaw :: real
  roll :: real

record carla_Transform =
  location :: carla_Location
  rotation :: carla_Rotation

definition Rotation_of_yaw :: "real \<Rightarrow> carla_Rotation" where
  "Rotation_of_yaw v = \<lparr>pitch = 0, yaw = v, roll = 0\<rparr>"

text \<open>
  Of the pedestrian, \<open>current_pose_to_points\<close> reads its transform and the absolute
  transforms of its bones (\<open>current_pose.absolute.values()\<close>), in the order of the bones.
\<close>

record walker =
  walker_transform :: carla_Transform
  absolute_bones :: "carla_Transform list"

record 'camera PoseProjection =
  pp_pedestrian :: walker
  pp_camera :: 'camera

text \<open>
  The calls into CARLA (\<open>Transform.transform\<close>) and into the camera library
  (\<open>Camera.imageFromSpace\<close>, with its \<open>hide_backpoints\<close> argument), which are parameters
  of the model, and the record of these calls.
\<close>

datatype carla_call =
    Transform_transform carla_Transform carla_Location
  | Camera_imageFromSpace "(real \<times> real \<times> real) list" bool

record ('camera, 'img) carla_collaborators =
  transform_location :: "carla_Transform \<Rightarrow> carla_Location \<Rightarrow> carla_Location"
  imageFromSpace :: "'camera \<Rightarrow> (real \<times> real \<times> real) list \<Rightarrow> bool \<Rightarrow> 'img"

definition current_pose_to_points ::
  "('camera, 'img) carla_collaborators \<Rightarrow> 'camera PoseProjection \<Rightarrow> 'img \<times> carla_call list" where
  "current_pose_to_points lib self =
     (let ped = walker_transform (pp_pedestrian self);
          root_transform =
            \<lparr>location = \<lparr>loc_x = loc_y (location ped),
                          loc_y = loc_x (location ped),
                          loc_z = loc_z (location ped)\<rparr>,
             rotation = Rotation_of_yaw (- yaw (rotation ped))\<rparr>;
          flipped = map (\<lambda>bone. \<lparr>loc_x = - loc_x (location bone),
                                   loc_y = loc_y (location bone),
                                   loc_z = loc_z (location bone)\<rparr>)
                        (absolute_bones (pp_pedestrian self));
          relativeBones = map (transform_location lib root_transform) flipped;
          points = map (\<lambda>bone. (loc_x bone, loc_y bone, loc_z bone)) relativeBones
      in (imageFromSpace lib (pp_camera self) points False,
          map (Transform_transform root_transform) flipped @
          [Camera_imageFromSpace points False]))"

section \<open>A small instance\<close>

text \<open>
  Collaborators, a module and inputs on which the definitions can be run: a skeleton of
  one bone, pedestrians that are their age and gender, a pose whose new relative
  rotations are the changes themselves, and a projection that returns the locations.
\<close>

definition demo_rotations :: tensor where
  "demo_rotations =
     \<lparr>shape = [1, 3, 3],
      entry = (\<lambda>idx. case idx of [b, i, j] \<Rightarrow> (if i = j then 1 else 0) | _ \<Rightarrow> 0)\<rparr>"

definition demo_lib :: "(string \<times> string, nat) collaborators" where
  "demo_lib =
     \<lparr>new_ControlledPedestrian = (\<lambda>age gender reference_pose. Inr (age, gender)),
      age_of = fst,
      gender_of = snd,
      current_pose_tensors = (\<lambda>p. (torch_zeros [1, 3], demo_rotations)),
      pose_forward = (\<lambda>p changes loc rot. Inr (loc, changes, changes)),
      pose_relative_to_absolute = (\<lambda>p loc rot. Inr (loc, rot)),
      new_P3dPoseProjection = (\<lambda>p. Inr 0),
      pose_projection_forward = (\<lambda>cam loc wloc wrot. Inr loc),
      denormalize_from_abs =
        (\<lambda>x ages genders. case x of Tensor t \<Rightarrow> Inr t | Tuple _ _ \<Rightarrow> Inl TypeError),
      world_from_changes =
        (\<lambda>sh wl wr l r. Inr (torch_zeros (take 2 sh @ [3]), torch_zeros (take 2 sh @ [3, 3]))),
      euler_angles_to_matrix = (\<lambda>t. Inr (torch_zeros (shape t @ [3]))),
      projection_transform = (\<lambda>t. Inr t),
      process_projection_2d = (\<lambda>t. Inr (t, [])),
      fresh_memory = (\<lambda>idx. 0)\<rparr>"

definition demo_module :: "(string \<times> string, nat) ProjectionModule" where
  "demo_module =
     \<lparr>movements_output_type = Movements_pose_changes,
      trajectory_output_type = Trajectory_loc_rot,
      pedestrians = Some [(''adult'', ''female'')],
      pose_projection = Some 0,
      world_locations = None,
      world_rotations = None\<rparr>"


definition demo_changes :: "nat \<Rightarrow> tensor" where
  "demo_changes clip = \<lparr>shape = [1, clip, 1, 3, 3], entry = (\<lambda>idx. real (sum_list idx))\<rparr>"

definition demo_carla :: "(unit, (real \<times> real \<times> real) list) carla_collaborators" where
  "demo_carla =
     \<lparr>transform_location =
        (\<lambda>t p. \<lparr>loc_x = loc_x p + loc_x (location t),
                 loc_y = loc_y p + loc_y (location t),
                 loc_z = loc_z p + loc_z (location t)\<rparr>),
      imageFromSpace = (\<lambda>cam points hide_backpoints. points)\<rparr>"

definition demo_walker :: walker where
  "demo_walker =
     \<lparr>walker_transform =
        \<lparr>location = \<lparr>loc_x = 1, loc_y = 2, loc_z = 3\<rparr>,
         rotation = \<lparr>pitch = 0, yaw = 90, roll = 0\<rparr>\<rparr>,
      absolute_bones =
        [\<lparr>location = \<lparr>loc_x = 4, loc_y = 5, loc_z = 6\<rparr>,
          rotation = \<lparr>pitch = 0, yaw = 0, roll = 0\<rparr>\<rparr>]\<rparr>"

definition demo_changes_alt :: tensor where
  "demo_changes_alt =
     \<lparr>shape = [1, 2, 1, 3, 3],
      entry = (\<lambda>idx. case idx of
                        n # j # r \<Rightarrow> if j = 0 then 7 else real (sum_list idx)
                      | _ \<Rightarrow> 0)\<rparr>"




definition demo_pose_projection :: "unit PoseProjection" where
  "demo_pose_projection = \<lparr>pp_pedestrian = demo_walker, pp_camera = ()\<rparr>"

definition demo_convert :: "dtype \<Rightarrow> scalar \<Rightarrow> error + scalar" where
  "demo_convert d v = Inr v"

definition demo_nan_tensor :: "unit \<Rightarrow> nat list \<Rightarrow> error + tensor" where
  "demo_nan_tensor d sh = Inl ValueError"

definition demo_mixed :: "unit MixedDataset" where
  "demo_mixed =
     \<lparr>targets_template = [],
      meta_template = Some [(''age'', Dtype_str), (''gender'', Dtype_str)]\<rparr>"

definition demo_item :: "tensor \<times> (string \<rightharpoonup> tensor) \<times> (string \<rightharpoonup> scalar)" where
  "demo_item = (torch_zeros [2, 1, 3], Map.empty, [''age'' \<mapsto> Str ''adult''])"

definition demo_table :: "string \<times> string \<rightharpoonup> nat" where
  "demo_table = [(''adult'', ''female'') \<mapsto> 1, (''adult'', ''male'') \<mapsto> 2]"

definition demo_denormalizing_lib :: "(string \<times> string, nat) collaborators" where
  "demo_denormalizing_lib =
     demo_lib\<lparr>denormalize_from_abs := from_abs_spec demo_table (\<lambda>references t. Inr t)\<rparr>"

definition demo_nan_module :: "(string \<times> string, nat) ProjectionModule" where
  "demo_nan_module =
     \<lparr>movements_output_type = Movements_absolute_loc,
      trajectory_output_type = Trajectory_loc_rot,
      pedestrians = Some [(''adult'', ''female''), (''adult'', ''nan'')],
      pose_projection = Some 0,
      world_locations = None,
      world_rotations = None\<rparr>"

section \<open>Reference definitions for the recurrences\<close>

text \<open>
  What a frame of an output holds after a tensor \<open>v\<close> was assigned to it: the entries of
  \<open>v\<close>, broadcast to the shape \<open>sh\<close> of the frame.
\<close>

definition frame_written :: "tensor \<Rightarrow> nat list \<Rightarrow> tensor" where
  "frame_written v sh =
     \<lparr>shape = sh, entry = (\<lambda>idx. if valid_index sh idx then broadcast_entry v idx else 0)\<rparr>"



text \<open>Whether a computation raised, and the kinds of recorded calls.\<close>

definition raises :: "('a, 'ped, 'cam) io \<Rightarrow> bool" where
  "raises m = (case fst m of Inl _ \<Rightarrow> True | Inr _ \<Rightarrow> False)"


definition is_projection_forward :: "('ped, 'cam) call \<Rightarrow> bool" where
  "is_projection_forward c =
     (case c of P3dPoseProjection_forward _ _ _ _ \<Rightarrow> True | _ \<Rightarrow> False)"

definition is_pedestrian_init :: "('ped, 'cam) call \<Rightarrow> bool" where
  "is_pedestrian_init c = (case c of ControlledPedestrian_init _ _ _ \<Rightarrow> True | _ \<Rightarrow> False)"

text \<open>All calls that a computation recorded satisfy \<open>Q\<close>.\<close>

definition all_calls :: "(('ped, 'cam) call \<Rightarrow> bool) \<Rightarrow> ('a, 'ped, 'cam) io \<Rightarrow> bool" where
  "all_calls Q m = list_all Q (snd m)"

definition is_process_projection_2d :: "('ped, 'cam) call \<Rightarrow> bool" where
  "is_process_projection_2d c = (case c of Process_projection_2d _ \<Rightarrow> True | _ \<Rightarrow> False)"


section \<open>Facts about tensors\<close>

lemma eye_tiled:
  "\<exists>t. (case reshape (torch_eye 3) [1, 1, 3, 3] of
          Inl e \<Rightarrow> Inl e
        | Inr e3 \<Rightarrow> repeat e3 [N, L, 1, 1]) = Inr t \<and>
       shape t = [N, L, 3, 3] \<and>
       (\<forall>n l i j. i < 3 \<longrightarrow> j < 3 \<longrightarrow> entry t [n, l, i, j] = (if i = j then 1 else 0))"
proof -
  have r: "reshape (torch_eye 3) [1, 1, 3, 3] =
      Inr \<lparr>shape = [1, 1, 3, 3],
           entry = (\<lambda>idx. entry (torch_eye 3) (unravel [3, 3] (ravel [1, 1, 3, 3] idx)))\<rparr>"
    by (simp add: reshape_def torch_eye_def)
  show ?thesis
    unfolding r by (simp add: repeat_def ndim_def Let_def torch_eye_def)
qed

subsection \<open>Sequencing\<close>

lemma io_bind_Inr [simp]:
  "io_bind (Inr a, calls) f = (case f a of (r, calls') \<Rightarrow> (r, calls @ calls'))"
  by (simp add: io_bind_def)

lemma io_bind_Inl [simp]: "io_bind (Inl e, calls) f = (Inl e, calls)"
  by (simp add: io_bind_def)

lemma io_bind_success:
  assumes "io_bind m f = (Inr b, calls)"
  obtains a c1 c2 where "m = (Inr a, c1)" "f a = (Inr b, c2)" "calls = c1 @ c2"
proof -
  obtain r c1 where m: "m = (r, c1)" by (cases m)
  show ?thesis
  proof (cases r)
    case (Inl e)
    with assms m show ?thesis by simp
  next
    case (Inr a)
    obtain r2 c2 where f: "f a = (r2, c2)" by (cases "f a")
    with assms m Inr have "r2 = Inr b" "calls = c1 @ c2" by simp_all
    with m Inr f that show ?thesis by blast
  qed
qed

lemma io_lift_success:
  assumes "io_bind (io_lift r) f = (Inr b, calls)"
  obtains a where "r = Inr a" "f a = (Inr b, calls)"
  using assms by (cases r) (auto simp: io_lift_def split: prod.splits)

lemma io_call_success:
  assumes "io_bind (io_call c r) f = (Inr b, calls)"
  obtains a calls' where "r = Inr a" "f a = (Inr b, calls')" "calls = c # calls'"
  using assms by (cases r) (auto simp: io_call_def split: prod.splits)

subsection \<open>Slices\<close>

lemma shape_slice1 [simp]: "shape (slice1 t i) = hd (shape t) # drop 2 (shape t)"
  by (simp add: slice1_def Let_def)

lemma entry_slice1:
  "entry (slice1 t i) idx =
     (if valid_index (hd (shape t) # drop 2 (shape t)) idx then entry t (hd idx # i # tl idx) else 0)"
  by (simp add: slice1_def Let_def)

lemma select1_success:
  assumes "select1 t i = Inr s"
  shows "s = slice1 t i" and "\<exists>d0 d1 rest. shape t = d0 # d1 # rest \<and> i < d1"
  using assms by (auto simp: select1_def split: list.splits if_splits)

lemma slice1_cong:
  assumes "shape a = shape b"
    and "\<And>n r. valid_index (hd (shape a) # drop 2 (shape a)) (n # r)
           \<Longrightarrow> entry a (n # i # r) = entry b (n # i # r)"
  shows "slice1 a i = slice1 b i"
proof -
  have "entry (slice1 a i) idx = entry (slice1 b i) idx" for idx
  proof (cases "valid_index (hd (shape a) # drop 2 (shape a)) idx")
    case True
    then obtain n r where "idx = n # r"
      by (cases idx) (auto simp: valid_index_def)
    with True assms show ?thesis by (simp add: entry_slice1)
  next
    case False
    with assms(1) show ?thesis by (simp add: entry_slice1)
  qed
  then have "entry (slice1 a i) = entry (slice1 b i)" by (rule ext)
  with assms(1) show ?thesis by (simp add: slice1_def Let_def)
qed

lemma assign1_success:
  assumes "assign1 t i v = Inr t'"
  shows "shape t' = shape t"
    and "entry t' (n # j # r) = (if j = i then broadcast_entry v (n # r) else entry t (n # j # r))"
  using assms by (auto simp: assign1_def split: list.splits if_splits)

lemma slice1_written:
  assumes "shape t = d0 # d1 # rest"
    and "\<And>n r. entry t (n # i # r) = broadcast_entry v (n # r)"
  shows "slice1 t i = frame_written v (d0 # rest)"
proof -
  have "entry (slice1 t i) idx = entry (frame_written v (d0 # rest)) idx" for idx
  proof (cases "valid_index (d0 # rest) idx")
    case True
    then obtain n r where "idx = n # r"
      by (cases idx) (auto simp: valid_index_def)
    with True assms show ?thesis by (simp add: entry_slice1 frame_written_def)
  next
    case False
    with assms(1) show ?thesis by (simp add: entry_slice1 frame_written_def)
  qed
  then have "entry (slice1 t i) = entry (frame_written v (d0 # rest))" by (rule ext)
  with assms(1) show ?thesis by (simp add: slice1_def Let_def frame_written_def)
qed

subsection \<open>The loop over the frames in pose-changes mode\<close>




subsection \<open>The loop over the frames in relative-rotation mode\<close>

lemma relative_rot_loop_spec:
  assumes "relative_rot_loop lib pose x ref_loc [k..<L] (al, ar) = (Inr (al', ar'), calls)"
  shows "calls = map (\<lambda>i. P3dPose_relative_to_absolute pose ref_loc (slice1 x i)) [k..<L]
       \<and> shape al' = shape al \<and> shape ar' = shape ar
       \<and> (\<forall>i. k \<le> i \<and> i < L \<longrightarrow>
            (\<exists>loc rot. pose_relative_to_absolute lib pose ref_loc (slice1 x i) = Inr (loc, rot) \<and>
               (\<forall>n r. entry al' (n # i # r) = broadcast_entry loc (n # r)) \<and>
               (\<forall>n r. entry ar' (n # i # r) = broadcast_entry rot (n # r))))
       \<and> (\<forall>i n r. \<not> (k \<le> i \<and> i < L) \<longrightarrow>
            entry al' (n # i # r) = entry al (n # i # r) \<and>
            entry ar' (n # i # r) = entry ar (n # i # r))"
  using assms
proof (induction "L - k" arbitrary: k al ar calls)
  case 0
  then have e: "[k..<L] = []" and n: "\<And>i. \<not> (k \<le> i \<and> i < L)" by simp_all
  from "0.prems" e have "al' = al" "ar' = ar" "calls = []" by (simp_all add: io_return_def)
  then show ?case using e n by auto
next
  case (Suc m)
  then have kL: "k < L" and up: "[k..<L] = k # [Suc k..<L]" and m: "m = L - Suc k"
    by (auto simp: upt_conv_Cons)
  from Suc.prems(1) [unfolded up relative_rot_loop.simps]
  obtain rotations where c: "select1 x k = Inr rotations"
    and r1: "io_bind (io_call (P3dPose_relative_to_absolute pose ref_loc rotations)
                (pose_relative_to_absolute lib pose ref_loc rotations))
       (\<lambda>(loc, rot).
     io_bind (io_lift (assign1 al k loc)) (\<lambda>absolute_loc'.
     io_bind (io_lift (assign1 ar k rot)) (\<lambda>absolute_rot'.
     relative_rot_loop lib pose x ref_loc [Suc k..<L]
       (absolute_loc', absolute_rot')))) = (Inr (al', ar'), calls)"
    by (rule io_lift_success)
  have ch: "rotations = slice1 x k" using c by (rule select1_success)
  from r1 obtain out calls1 where
    f: "pose_relative_to_absolute lib pose ref_loc rotations = Inr out"
    and r2: "(case out of (loc, rot) \<Rightarrow>
     io_bind (io_lift (assign1 al k loc)) (\<lambda>absolute_loc'.
     io_bind (io_lift (assign1 ar k rot)) (\<lambda>absolute_rot'.
     relative_rot_loop lib pose x ref_loc [Suc k..<L]
       (absolute_loc', absolute_rot')))) = (Inr (al', ar'), calls1)"
    and cs: "calls = P3dPose_relative_to_absolute pose ref_loc rotations # calls1"
    by (rule io_call_success)
  obtain loc rot where out: "out = (loc, rot)" by (cases out)
  from r2 [unfolded out prod.case]
  obtain al1 where a1: "assign1 al k loc = Inr al1"
    and r3: "io_bind (io_lift (assign1 ar k rot)) (\<lambda>absolute_rot'.
     relative_rot_loop lib pose x ref_loc [Suc k..<L] (al1, absolute_rot'))
       = (Inr (al', ar'), calls1)"
    by (rule io_lift_success)
  from r3 obtain ar1 where a2: "assign1 ar k rot = Inr ar1"
    and r4: "relative_rot_loop lib pose x ref_loc [Suc k..<L] (al1, ar1)
       = (Inr (al', ar'), calls1)"
    by (rule io_lift_success)
  have fa: "pose_relative_to_absolute lib pose ref_loc (slice1 x k) = Inr (loc, rot)"
    using f out ch by simp
  note IH = Suc.hyps(1) [OF m r4]
  note s1 = assign1_success [OF a1] and s2 = assign1_success [OF a2]
  have calls: "calls = map (\<lambda>i. P3dPose_relative_to_absolute pose ref_loc (slice1 x i)) [k..<L]"
    using IH cs ch up by simp
  have shapes: "shape al' = shape al" "shape ar' = shape ar"
    using IH s1(1) s2(1) by simp_all
  have inside: "\<exists>loc rot. pose_relative_to_absolute lib pose ref_loc (slice1 x i) = Inr (loc, rot) \<and>
               (\<forall>n r. entry al' (n # i # r) = broadcast_entry loc (n # r)) \<and>
               (\<forall>n r. entry ar' (n # i # r) = broadcast_entry rot (n # r))"
    if "k \<le> i \<and> i < L" for i
  proof (cases "i = k")
    case True
    have "\<not> (Suc k \<le> i \<and> i < L)" using True by simp
    with IH have "entry al' (n # i # r) = entry al1 (n # i # r)"
      "entry ar' (n # i # r) = entry ar1 (n # i # r)" for n r
      by blast+
    with True fa s1(2) s2(2) show ?thesis by simp
  next
    case False
    with that have "Suc k \<le> i \<and> i < L" by simp
    with IH show ?thesis by blast
  qed
  have outside: "entry al' (n # i # r) = entry al (n # i # r) \<and>
            entry ar' (n # i # r) = entry ar (n # i # r)"
    if "\<not> (k \<le> i \<and> i < L)" for i n r
  proof -
    from that kL have "\<not> (Suc k \<le> i \<and> i < L)" "i \<noteq> k" by auto
    with IH s1(2) s2(2) show ?thesis by simp
  qed
  from calls shapes inside outside show ?case by blast
qed

lemma relative_rot_success:
  assumes "calculate_abs_from_relative_rot lib self (Tensor x)
             = (Inr (absolute_loc, absolute_rot), calls)"
  shows "\<exists>N L P rest ref_loc ref_rot loc0 pose rot_out.
    shape x = N # L # P # rest \<and>
    get_reference_tensors lib self = Inr (ref_loc, ref_rot) \<and>
    expand_reference_loc ref_loc N = Inr loc0 \<and>
    first_pedestrian self = Inr pose \<and>
    absolute_rot = Some rot_out \<and>
    calls = map (\<lambda>i. P3dPose_relative_to_absolute pose loc0 (slice1 x i)) [0..<L] \<and>
    (\<forall>i < L.
       \<exists>loc rot. pose_relative_to_absolute lib pose loc0 (slice1 x i) = Inr (loc, rot) \<and>
         slice1 absolute_loc i = frame_written loc [N, P, 3] \<and>
         slice1 rot_out i = frame_written rot [N, P, 3, 3])"
proof -
  from assms obtain N L P rest where sh: "shape x = N # L # P # rest"
    by (auto simp: calculate_abs_from_relative_rot_def io_raise_def split: list.splits)
  let ?al = "torch_empty (fresh_memory lib) [N, L, P, 3]"
  let ?ar = "torch_empty (fresh_memory lib) [N, L, P, 3, 3]"
  from assms sh have r0: "io_bind (io_lift (get_reference_tensors lib self))
                 (\<lambda>(reference_loc, _).
                  io_bind (io_lift (expand_reference_loc reference_loc N)) (\<lambda>prev_relative_loc.
                  io_bind (io_lift (first_pedestrian self)) (\<lambda>pose.
                  io_bind (relative_rot_loop lib pose x prev_relative_loc [0..<L] (?al, ?ar))
                    (\<lambda>(absolute_loc', absolute_rot').
                  io_return (absolute_loc', Some absolute_rot')))))
       = (Inr (absolute_loc, absolute_rot), calls)"
    by (simp add: calculate_abs_from_relative_rot_def Let_def)
  then obtain refs where g: "get_reference_tensors lib self = Inr refs"
    and r1: "(case refs of (reference_loc, _) \<Rightarrow>
                  io_bind (io_lift (expand_reference_loc reference_loc N)) (\<lambda>prev_relative_loc.
                  io_bind (io_lift (first_pedestrian self)) (\<lambda>pose.
                  io_bind (relative_rot_loop lib pose x prev_relative_loc [0..<L] (?al, ?ar))
                    (\<lambda>(absolute_loc', absolute_rot').
                  io_return (absolute_loc', Some absolute_rot')))))
       = (Inr (absolute_loc, absolute_rot), calls)"
    by (rule io_lift_success)
  obtain ref_loc ref_rot where refs: "refs = (ref_loc, ref_rot)" by (cases refs)
  from r1 [unfolded refs prod.case] obtain loc0 where
    e: "expand_reference_loc ref_loc N = Inr loc0"
    and r1': "io_bind (io_lift (first_pedestrian self)) (\<lambda>pose.
                  io_bind (relative_rot_loop lib pose x loc0 [0..<L] (?al, ?ar))
                    (\<lambda>(absolute_loc', absolute_rot').
                  io_return (absolute_loc', Some absolute_rot')))
       = (Inr (absolute_loc, absolute_rot), calls)"
    by (rule io_lift_success)
  from r1' obtain pose where p: "first_pedestrian self = Inr pose"
    and r2: "io_bind (relative_rot_loop lib pose x loc0 [0..<L] (?al, ?ar))
                    (\<lambda>(absolute_loc', absolute_rot').
                  io_return (absolute_loc', Some absolute_rot'))
       = (Inr (absolute_loc, absolute_rot), calls)"
    by (rule io_lift_success)
  from r2 obtain acc c1 c2 where
    l: "relative_rot_loop lib pose x loc0 [0..<L] (?al, ?ar) = (Inr acc, c1)"
    and r3: "(case acc of (absolute_loc', absolute_rot') \<Rightarrow>
                (io_return (absolute_loc', Some absolute_rot')
                   :: (tensor \<times> tensor option, 'a, 'b) io))
               = (Inr (absolute_loc, absolute_rot), c2)"
    and cs: "calls = c1 @ c2"
    by (rule io_bind_success)
  obtain al' ar' where acc: "acc = (al', ar')" by (cases acc)
  from r3 acc have res: "absolute_loc = al'" "absolute_rot = Some ar'" "c2 = []"
    by (simp_all add: io_return_def)
  note spec = relative_rot_loop_spec [OF l [unfolded acc]]
  have frames: "\<exists>loc rot. pose_relative_to_absolute lib pose loc0 (slice1 x i) = Inr (loc, rot) \<and>
         slice1 absolute_loc i = frame_written loc [N, P, 3] \<and>
         slice1 ar' i = frame_written rot [N, P, 3, 3]" if "i < L" for i
  proof -
    from spec that obtain loc rot where
      f: "pose_relative_to_absolute lib pose loc0 (slice1 x i) = Inr (loc, rot)"
      and e1: "\<And>n r. entry al' (n # i # r) = broadcast_entry loc (n # r)"
      and e2: "\<And>n r. entry ar' (n # i # r) = broadcast_entry rot (n # r)"
      by auto
    from spec have s1: "shape al' = [N, L, P, 3]" and s2: "shape ar' = [N, L, P, 3, 3]"
      by (simp_all add: torch_empty_def)
    from slice1_written [OF s1 e1] slice1_written [OF s2 e2] f res(1) show ?thesis by blast
  qed
  from spec cs res have "calls = map (\<lambda>i. P3dPose_relative_to_absolute pose loc0 (slice1 x i)) [0..<L]"
    by simp
  with sh g refs e p res(2) frames show ?thesis by blast
qed

subsection \<open>Runs of the small instance\<close>

lemma upt_0_1: "[0..<1] = [0]" by (simp add: upt_rec)
lemma upt_0_2: "[0..<2] = [0, 1]" by (simp add: upt_rec)

lemmas demo_eval =
  demo_changes_def demo_module_def demo_lib_def demo_rotations_def
  get_reference_tensors_def first_pedestrian_def io_lift_def io_return_def io_call_def io_raise_def
  stack_def torch_zeros_def torch_empty_def torch_empty_like_def select1_def assign1_def
  broadcastable_def upt_0_1 upt_0_2 Let_def




lemmas demo_eval2 = demo_eval expand_reference_loc_def reshape_def repeat_def ndim_def

lemma demo_rel_run: "\<exists>al ar c. calculate_abs_from_relative_rot demo_lib demo_module (Tensor (demo_changes 2)) = (Inr (al, Some ar), c)"
  by (simp add: calculate_abs_from_relative_rot_def demo_eval2)

lemma demo_rel_run_alt: "\<exists>al ar c. calculate_abs_from_relative_rot demo_lib demo_module (Tensor demo_changes_alt) = (Inr (al, Some ar), c)"
  by (simp add: calculate_abs_from_relative_rot_def demo_eval2 demo_changes_alt_def)

lemma demo_agree_alt: "slice1 (demo_changes 2) 1 = slice1 demo_changes_alt 1"
  by (auto simp: slice1_def demo_changes_def demo_changes_alt_def Let_def fun_eq_iff valid_index_def list_all2_Cons2)

subsection \<open>The world accumulator and empty clips\<close>

lemma calculate_world_from_loc_rot_success:
  assumes "shape absolute_loc = N # L # rest"
  shows "\<exists>world_loc world_rot.
           calculate_world_from_loc_rot absolute_loc wl wr = Inr (world_loc, world_rot)"
proof -
  obtain t where "(case reshape (torch_eye 3) [1, 1, 3, 3] of
          Inl e \<Rightarrow> Inl e
        | Inr e3 \<Rightarrow> repeat e3 [N, L, 1, 1]) = Inr t"
    using eye_tiled [of N L] by blast
  then show ?thesis
    using assms
    by (cases wl; cases wr) (simp_all add: calculate_world_from_loc_rot_def)
qed

lemma pose_changes_loop_Nil [simp]:
  "pose_changes_loop lib pose x ref_loc [] acc = (Inr acc, [])"
  by (simp add: io_return_def)

subsection \<open>Which calls a computation records\<close>

lemma all_calls_bind:
  assumes "all_calls Q m" and "\<And>a. all_calls Q (f a)"
  shows "all_calls Q (io_bind m f)"
proof -
  obtain r c where m: "m = (r, c)" by (cases m)
  show ?thesis
  proof (cases r)
    case (Inl e)
    with m assms(1) show ?thesis by (simp add: all_calls_def)
  next
    case (Inr a)
    obtain r2 c2 where f: "f a = (r2, c2)" by (cases "f a")
    with assms(2) [of a] have "list_all Q c2" by (simp add: all_calls_def)
    with m Inr f assms(1) show ?thesis by (simp add: all_calls_def)
  qed
qed

lemma all_calls_simps [simp]:
  "all_calls Q (io_return a)"
  "all_calls Q (io_raise e)"
  "all_calls Q (io_lift r)"
  "all_calls Q (io_call c r') = Q c"
  by (simp_all add: all_calls_def io_return_def io_raise_def io_lift_def io_call_def)


lemma not_forward_simps [simp]:
  "\<not> is_projection_forward (P3dPose_forward p a b c)"
  "\<not> is_projection_forward (P3dPose_relative_to_absolute p a b)"
  "\<not> is_projection_forward (Denormalize_from_abs x ages genders)"
  "\<not> is_projection_forward (World_from_changes sh wl wr l r)"
  "\<not> is_projection_forward (ControlledPedestrian_init age gender rp)"
  "\<not> is_projection_forward (P3dPoseProjection_init p)"
  "is_projection_forward (P3dPoseProjection_forward cam a b c)"
  by (simp_all add: is_projection_forward_def)






subsection \<open>The batch start and the projection loop\<close>






lemma new_pedestrians_calls:
  "all_calls is_pedestrian_init (new_pedestrians lib meta idxs)"
proof (induction idxs)
  case Nil
  show ?case by simp
next
  case (Cons idx rest)
  show ?case unfolding new_pedestrians.simps new_pedestrian_def
    by (intro all_calls_bind Cons) (simp_all add: is_pedestrian_init_def)
qed




subsection \<open>The generator\<close>

lemma new_pedestrians_no_process:
  assumes "new_pedestrians lib meta idxs = (r, calls)"
  shows "filter is_process_projection_2d calls = []"
  using new_pedestrians_calls [of lib meta idxs] assms
  by (auto simp: all_calls_def list_all_iff filter_empty_conv is_pedestrian_init_def
      is_process_projection_2d_def split: call.splits)

lemma on_batch_start_no_process:
  assumes "on_batch_start lib batch batch_idx self = (r, self', calls)"
  shows "filter is_process_projection_2d calls = []"
proof -
  obtain frames mid meta where b: "batch = (frames, mid, meta)" by (cases batch)
  show ?thesis
  proof (cases "len frames")
    case (Inl e)
    with assms b show ?thesis by (simp add: on_batch_start_def)
  next
    case (Inr n)
    obtain r0 c0 where np: "new_pedestrians lib meta [0..<n] = (r0, c0)"
      by (cases "new_pedestrians lib meta [0..<n]")
    note c0 = new_pedestrians_no_process [OF np]
    from assms b Inr np have "calls = c0 \<or> (\<exists>first. calls = c0 @ [P3dPoseProjection_init first])"
      by (auto simp: on_batch_start_def Let_def split: sum.splits list.splits)
    with c0 show ?thesis by (auto simp: is_process_projection_2d_def)
  qed
qed

lemma assign_last_success:
  assumes "assign_last t c v = Inr t'"
  shows "shape t' = shape t" "shape t \<noteq> []" "c < last (shape t)"
    "\<And>idx. idx \<noteq> [] \<Longrightarrow> last idx = c \<Longrightarrow> entry t' idx = v"
  using assms by (auto simp: assign_last_def split: if_splits)

lemma call_module_generator_keywords:
  "call_module lib self
     [(''pose_inputs_batch'', pose_changes_batch),
      (''world_rot_change_batch'', world_rot_change_batch),
      (''world_loc_change_batch'', world_loc_change_batch)] = io_raise TypeError"
  by (simp add: call_module_def forward_parameters_def)

lemma generate_batch_raises:
  "\<exists>e. fst (generate_batch lib self draws n) = Inl e"
  by (simp add: generate_batch_def Let_def call_module_generator_keywords io_raise_def
      io_bind_def split: sum.splits prod.splits)

lemma generate_batch_no_process:
  "filter is_process_projection_2d (snd (snd (generate_batch lib self draws n))) = []"
proof -
  have "filter is_process_projection_2d calls = []"
    if "on_batch_start lib batch 0 (ds_projection self) = (r, self', calls)"
    for batch r self' calls
    using that by (rule on_batch_start_no_process)
  then show ?thesis
    by (auto simp: generate_batch_def Let_def call_module_generator_keywords io_raise_def
        io_bind_def is_process_projection_2d_def split: sum.splits prod.splits)
qed

lemma generate_batch_tail_channel:
  assumes "generate_batch_tail lib (projected, outputs) pose_changes_batch world_loc_change_batch
             world_rot_change_batch meta = (Inr (projection_2d, targets, meta'), calls)"
  shows "\<exists>orig projection_targets.
           calls = [Process_projection_2d orig] \<and>
           process_projection_2d lib orig = Inr (projection_2d, projection_targets) \<and>
           shape orig = shape projected \<and> 2 < last (shape orig) \<and>
           (\<forall>idx. valid_index (shape orig) idx \<longrightarrow> last idx = 2 \<longrightarrow> entry orig idx = 1)"
proof -
  from assms obtain orig where a: "assign_last projected 2 1 = Inr orig"
    by (auto simp: generate_batch_tail_def io_bind_def io_lift_def split: sum.splits)
  from assms a obtain pt where
    pr: "process_projection_2d lib orig = Inr (projection_2d, pt)"
    and c: "calls = [Process_projection_2d orig]"
    by (auto simp: generate_batch_tail_def io_bind_def io_lift_def io_call_def io_return_def
        split: sum.splits prod.splits)
  note al = assign_last_success [OF a]
  have ch: "entry orig idx = 1" if "valid_index (shape orig) idx" "last idx = 2" for idx
  proof -
    from that(1) al(1,2) have "idx \<noteq> []" by (auto simp: valid_index_def)
    with al(4) that(2) show ?thesis by simp
  qed
  from c pr al(1,3) ch show ?thesis by simp
qed

subsection \<open>Missing metadata\<close>

lemma instance_reference_missing:
  "metadata_missing table ages genders idx \<Longrightarrow>
     instance_reference table ages genders idx = Inl (MissingMetadataError idx)"
  by (auto simp: metadata_missing_def instance_reference_def)

lemma instance_reference_present:
  "\<not> metadata_missing table ages genders idx \<Longrightarrow>
     \<exists>reference. instance_reference table ages genders idx = Inr reference"
  by (auto simp: metadata_missing_def instance_reference_def)

lemma instance_references_first_missing:
  assumes "\<forall>i \<in> set before. \<not> metadata_missing table ages genders i"
    and "metadata_missing table ages genders j"
  shows "instance_references table ages genders (before @ j # rest)
           = Inl (MissingMetadataError j)"
  using assms(1)
proof (induction before)
  case Nil
  from instance_reference_missing [OF assms(2)] show ?case by simp
next
  case (Cons i before)
  from Cons.prems have "\<not> metadata_missing table ages genders i" by simp
  from instance_reference_present [OF this] obtain reference where
    "instance_reference table ages genders i = Inr reference" ..
  moreover from Cons have
    "instance_references table ages genders (before @ j # rest) = Inl (MissingMetadataError j)"
    by simp
  ultimately show ?case by simp
qed

lemma instance_references_missing:
  assumes "idx < n" and "metadata_missing table ages genders idx"
  shows "\<exists>j\<le>idx. metadata_missing table ages genders j \<and>
           (\<forall>i<j. \<not> metadata_missing table ages genders i) \<and>
           instance_references table ages genders [0..<n] = Inl (MissingMetadataError j)"
proof -
  define j where "j = (LEAST i. metadata_missing table ages genders i)"
  have m: "metadata_missing table ages genders j"
    unfolding j_def using assms(2) by (rule LeastI)
  have le: "j \<le> idx"
    unfolding j_def using assms(2) by (rule Least_le)
  have first: "\<forall>i<j. \<not> metadata_missing table ages genders i"
    unfolding j_def using not_less_Least by blast
  from le assms(1) have "j < n" by simp
  then have "[0..<n] = [0..<j] @ j # [Suc j..<n]"
    by (metis le_add1 less_imp_add_positive plus_nat.add_0 upt_add_eq_append upt_conv_Cons
        less_eq_nat.simps(1))
  moreover from first have "\<forall>i \<in> set [0..<j]. \<not> metadata_missing table ages genders i"
    by simp
  ultimately have "instance_references table ages genders [0..<n] = Inl (MissingMetadataError j)"
    using instance_references_first_missing [OF _ m] by simp
  with le m first show ?thesis by blast
qed

lemma from_abs_spec_missing:
  assumes "len t = Inr n" and "idx < n" and "metadata_missing table ages genders idx"
  shows "\<exists>j\<le>idx. metadata_missing table ages genders j \<and>
           (\<forall>i<j. \<not> metadata_missing table ages genders i) \<and>
           from_abs_spec table rescale (Tensor t) ages genders = Inl (MissingMetadataError j)"
  using instance_references_missing [OF assms(2,3)] assms(1)
  by (auto simp: from_abs_spec_def)

lemma common_meta_missing:
  assumes "common_meta_of convert template m = Inr cm"
    and "(key, d) \<in> set template" and "m key = None"
  shows "\<exists>v. numpy_nan_item d = Inr v \<and> (key, v) \<in> set cm"
  using assms
proof (induction template arbitrary: cm)
  case Nil
  then show ?case by simp
next
  case (Cons kd rest)
  obtain k' d' where kd: "kd = (k', d')" by (cases kd)
  from Cons.prems(1) [unfolded kd common_meta_of.simps]
  obtain v vs where
    v: "(case m k' of Some v \<Rightarrow> convert d' v | None \<Rightarrow> numpy_nan_item d') = Inr v"
    and vs: "common_meta_of convert rest m = Inr vs"
    and cm: "cm = (k', v) # vs"
    by (auto split: sum.splits)
  show ?case
  proof (cases "(key, d) = (k', d')")
    case True
    with v Cons.prems(3) cm show ?thesis by auto
  next
    case False
    with Cons.prems(2) kd have "(key, d) \<in> set rest" by auto
    from Cons.IH [OF vs this Cons.prems(3)] cm show ?thesis by auto
  qed
qed

section \<open>Claims\<close>





text \<open>
  C3. A pose input that does not fit the movements output type makes \<open>project_pose\<close>
  raise at once, before any composition: a tensor with fewer than five axes in pose-changes
  mode, a tensor with fewer than four axes in absolute-location mode, and anything that is
  not a tuple in absolute-location-with-rotation mode give \<open>RuntimeError\<close> with no call
  made. An input that fits (five axes or more, four axes or more, a tuple) passes the
  checks: they raise nothing.
\<close>

theorem C3_project_pose_shape_guard:
  "(movements_output_type self = Movements_pose_changes \<and> ndim t < 5 \<longrightarrow>
      project_pose lib self (Tensor t) wl wr = (Inl RuntimeError, [])) \<and>
   (movements_output_type self = Movements_absolute_loc \<and> ndim t < 4 \<longrightarrow>
      project_pose lib self (Tensor t) wl wr = (Inl RuntimeError, [])) \<and>
   (movements_output_type self = Movements_absolute_loc_rot \<longrightarrow>
      project_pose lib self (Tensor t) wl wr = (Inl RuntimeError, [])) \<and>
   (movements_output_type self = Movements_pose_changes \<and> 5 \<le> ndim t \<longrightarrow>
      project_pose_guard (movements_output_type self) (Tensor t) = None) \<and>
   (movements_output_type self = Movements_absolute_loc \<and> 4 \<le> ndim t \<longrightarrow>
      project_pose_guard (movements_output_type self) (Tensor t) = None) \<and>
   (movements_output_type self = Movements_absolute_loc_rot \<longrightarrow>
      project_pose_guard (movements_output_type self) (Tuple a b) = None)"
  by (simp add: project_pose_def project_pose_guard_def ndim_of_def is_tuple_def io_raise_def)

theorem C3_project_pose_shape_guard_witness:
  "ndim (torch_zeros [2, 3]) < 5 \<and>
   project_pose demo_lib demo_module (Tensor (torch_zeros [2, 3])) None None
     = (Inl RuntimeError, []) \<and>
   ndim (torch_zeros [2, 3, 1]) < 4 \<and>
   project_pose demo_lib (demo_module\<lparr>movements_output_type := Movements_absolute_loc\<rparr>)
       (Tensor (torch_zeros [2, 3, 1])) None None
     = (Inl RuntimeError, []) \<and>
   project_pose demo_lib (demo_module\<lparr>movements_output_type := Movements_absolute_loc_rot\<rparr>)
       (Tensor (torch_zeros [2, 3, 1, 3])) None None
     = (Inl RuntimeError, []) \<and>
   5 \<le> ndim (demo_changes 2) \<and>
   project_pose_guard Movements_pose_changes (Tensor (demo_changes 2)) = None \<and>
   4 \<le> ndim (torch_zeros [2, 3, 1, 3]) \<and>
   project_pose_guard Movements_absolute_loc (Tensor (torch_zeros [2, 3, 1, 3])) = None \<and>
   project_pose_guard Movements_absolute_loc_rot
       (Tuple (torch_zeros [2, 3, 1, 3]) (torch_zeros [2, 3, 1, 3, 3])) = None"
  using C3_project_pose_shape_guard [of demo_module "torch_zeros [2, 3]" demo_lib None None]
    C3_project_pose_shape_guard [of demo_module "demo_changes 2" demo_lib None None]
    C3_project_pose_shape_guard
      [of "demo_module\<lparr>movements_output_type := Movements_absolute_loc\<rparr>"
          "torch_zeros [2, 3, 1]" demo_lib None None]
    C3_project_pose_shape_guard
      [of "demo_module\<lparr>movements_output_type := Movements_absolute_loc\<rparr>"
          "torch_zeros [2, 3, 1, 3]" demo_lib None None]
    C3_project_pose_shape_guard
      [of "demo_module\<lparr>movements_output_type := Movements_absolute_loc_rot\<rparr>"
          "torch_zeros [2, 3, 1, 3]" demo_lib None None
          "torch_zeros [2, 3, 1, 3]" "torch_zeros [2, 3, 1, 3, 3]"]
  by (simp add: demo_module_def ndim_def torch_zeros_def demo_changes_def)



text \<open>
  C5. Before it projects, \<open>current_pose_to_points\<close> corrects the coordinate system,
  in the same way for every input: the root transform has the x and y coordinates of the
  location of the pedestrian's transform swapped and its z coordinate unchanged, and the
  negated yaw; every absolute bone location has its x coordinate negated and its y and z
  coordinates unchanged. These corrected locations, one for each bone and in the order of
  the bones, moved by the root transform, are what is projected. (The root transform is
  built from the yaw alone.)
\<close>

theorem C5_coordinate_correction:
  "\<exists>root flipped points.
     snd (current_pose_to_points lib self)
       = map (Transform_transform root) flipped @ [Camera_imageFromSpace points False] \<and>
     loc_x (location root) = loc_y (location (walker_transform (pp_pedestrian self))) \<and>
     loc_y (location root) = loc_x (location (walker_transform (pp_pedestrian self))) \<and>
     loc_z (location root) = loc_z (location (walker_transform (pp_pedestrian self))) \<and>
     yaw (rotation root) = - yaw (rotation (walker_transform (pp_pedestrian self))) \<and>
     length flipped = length (absolute_bones (pp_pedestrian self)) \<and>
     (\<forall>k < length (absolute_bones (pp_pedestrian self)).
        loc_x (flipped ! k) = - loc_x (location (absolute_bones (pp_pedestrian self) ! k)) \<and>
        loc_y (flipped ! k) = loc_y (location (absolute_bones (pp_pedestrian self) ! k)) \<and>
        loc_z (flipped ! k) = loc_z (location (absolute_bones (pp_pedestrian self) ! k))) \<and>
     points = map (\<lambda>bone. (loc_x bone, loc_y bone, loc_z bone))
                (map (transform_location lib root) flipped) \<and>
     fst (current_pose_to_points lib self) = imageFromSpace lib (pp_camera self) points False"
proof -
  let ?ped = "walker_transform (pp_pedestrian self)"
  let ?root = "\<lparr>location = \<lparr>loc_x = loc_y (location ?ped), loc_y = loc_x (location ?ped),
                              loc_z = loc_z (location ?ped)\<rparr>,
                 rotation = Rotation_of_yaw (- yaw (rotation ?ped))\<rparr>"
  let ?flipped = "map (\<lambda>bone. \<lparr>loc_x = - loc_x (location bone),
                                 loc_y = loc_y (location bone),
                                 loc_z = loc_z (location bone)\<rparr>)
                      (absolute_bones (pp_pedestrian self))"
  let ?points = "map (\<lambda>bone. (loc_x bone, loc_y bone, loc_z bone))
                     (map (transform_location lib ?root) ?flipped)"
  show ?thesis
    by (rule exI [of _ ?root], rule exI [of _ ?flipped], rule exI [of _ ?points])
      (simp add: current_pose_to_points_def Let_def Rotation_of_yaw_def o_def)
qed

theorem C5_coordinate_correction_witness:
  "length (absolute_bones (pp_pedestrian demo_pose_projection)) = 1 \<and>
   current_pose_to_points demo_carla demo_pose_projection
     = ([(- 2, 6, 9)],
        [Transform_transform
           \<lparr>location = \<lparr>loc_x = 2, loc_y = 1, loc_z = 3\<rparr>,
            rotation = \<lparr>pitch = 0, yaw = - 90, roll = 0\<rparr>\<rparr>
           \<lparr>loc_x = - 4, loc_y = 5, loc_z = 6\<rparr>,
         Camera_imageFromSpace [(- 2, 6, 9)] False])"
proof -
  from C5_coordinate_correction [of demo_carla demo_pose_projection]
  obtain root flipped points where
    c: "snd (current_pose_to_points demo_carla demo_pose_projection)
          = map (Transform_transform root) flipped @ [Camera_imageFromSpace points False]"
    and r: "loc_x (location root) = loc_y (location (walker_transform (pp_pedestrian demo_pose_projection)))"
      "loc_y (location root) = loc_x (location (walker_transform (pp_pedestrian demo_pose_projection)))"
      "loc_z (location root) = loc_z (location (walker_transform (pp_pedestrian demo_pose_projection)))"
      "yaw (rotation root) = - yaw (rotation (walker_transform (pp_pedestrian demo_pose_projection)))"
    and l: "length flipped = length (absolute_bones (pp_pedestrian demo_pose_projection))"
    and f: "\<forall>k < length (absolute_bones (pp_pedestrian demo_pose_projection)).
        loc_x (flipped ! k) = - loc_x (location (absolute_bones (pp_pedestrian demo_pose_projection) ! k)) \<and>
        loc_y (flipped ! k) = loc_y (location (absolute_bones (pp_pedestrian demo_pose_projection) ! k)) \<and>
        loc_z (flipped ! k) = loc_z (location (absolute_bones (pp_pedestrian demo_pose_projection) ! k))"
    by blast
  have n: "length (absolute_bones (pp_pedestrian demo_pose_projection)) = 1"
    by (simp add: demo_pose_projection_def demo_walker_def)
  from f n have "loc_x (flipped ! 0) = - 4"
    by (simp add: demo_pose_projection_def demo_walker_def)
  moreover have "current_pose_to_points demo_carla demo_pose_projection
     = ([(- 2, 6, 9)],
        [Transform_transform
           \<lparr>location = \<lparr>loc_x = 2, loc_y = 1, loc_z = 3\<rparr>,
            rotation = \<lparr>pitch = 0, yaw = - 90, roll = 0\<rparr>\<rparr>
           \<lparr>loc_x = - 4, loc_y = 5, loc_z = 6\<rparr>,
         Camera_imageFromSpace [(- 2, 6, 9)] False])"
    by (simp add: current_pose_to_points_def Let_def Rotation_of_yaw_def demo_carla_def
        demo_pose_projection_def demo_walker_def)
  ultimately show ?thesis using n by simp
qed

text \<open>
  C6. In location+rotation trajectory mode the world accumulator passes its inputs
  through: for absolute locations of shape (batch, clip length, ...), a supplied world
  location and a supplied world rotation are returned as they are; an absent world
  location is replaced by an all-zeros tensor of shape (batch, clip length, 3), and an
  absent world rotation by a tensor of shape (batch, clip length, 3, 3) that holds the
  identity matrix at every frame of every batch element.
\<close>

theorem C6_world_from_loc_rot_pass_through:
  assumes "shape absolute_loc = N # L # rest"
  shows "\<exists>world_loc world_rot.
           calculate_world_from_loc_rot absolute_loc wl wr = Inr (world_loc, world_rot) \<and>
           (\<forall>t. wl = Some t \<longrightarrow> world_loc = t) \<and>
           (wl = None \<longrightarrow>
              shape world_loc = [N, L, 3] \<and>
              (\<forall>n < N. \<forall>l < L. \<forall>c < 3. entry world_loc [n, l, c] = 0)) \<and>
           (\<forall>t. wr = Some t \<longrightarrow> world_rot = t) \<and>
           (wr = None \<longrightarrow>
              shape world_rot = [N, L, 3, 3] \<and>
              (\<forall>n < N. \<forall>l < L. \<forall>i < 3. \<forall>j < 3.
                 entry world_rot [n, l, i, j] = (if i = j then 1 else 0)))"
proof -
  obtain t where t: "(case reshape (torch_eye 3) [1, 1, 3, 3] of
          Inl e \<Rightarrow> Inl e
        | Inr e3 \<Rightarrow> repeat e3 [N, L, 1, 1]) = Inr t"
      "shape t = [N, L, 3, 3]"
      "\<And>n l i j. i < 3 \<Longrightarrow> j < 3 \<Longrightarrow> entry t [n, l, i, j] = (if i = j then 1 else 0)"
    using eye_tiled [of N L] by blast
  show ?thesis
  proof (cases wr)
    case None
    then show ?thesis
      using assms t by (cases wl) (simp_all add: calculate_world_from_loc_rot_def torch_zeros_def)
  next
    case (Some r)
    then show ?thesis
      using assms by (cases wl) (simp_all add: calculate_world_from_loc_rot_def torch_zeros_def)
  qed
qed

theorem C6_world_from_loc_rot_pass_through_witness:
  "shape (torch_zeros [2, 3, 1, 3]) = 2 # 3 # [1, 3] \<and>
   (\<exists>world_loc world_rot.
      calculate_world_from_loc_rot (torch_zeros [2, 3, 1, 3]) None None
        = Inr (world_loc, world_rot) \<and>
      shape world_loc = [2, 3, 3] \<and> entry world_loc [1, 2, 0] = 0 \<and>
      shape world_rot = [2, 3, 3, 3] \<and>
      entry world_rot [1, 2, 1, 1] = 1 \<and> entry world_rot [1, 2, 0, 1] = 0)"
proof -
  have h: "shape (torch_zeros [2, 3, 1, 3]) = 2 # 3 # [1, 3]"
    by (simp add: torch_zeros_def)
  from C6_world_from_loc_rot_pass_through [OF h, of None None]
  obtain world_loc world_rot where
    r: "calculate_world_from_loc_rot (torch_zeros [2, 3, 1, 3]) None None
          = Inr (world_loc, world_rot)"
    and l: "shape world_loc = [2, 3, 3]"
      "\<forall>n < 2. \<forall>l < 3. \<forall>c < 3. entry world_loc [n, l, c] = 0"
    and w: "shape world_rot = [2, 3, 3, 3]"
      "\<forall>n < 2. \<forall>l < 3. \<forall>i < 3. \<forall>j < 3.
         entry world_rot [n, l, i, j] = (if i = j then 1 else 0)"
    by auto
  have "entry world_loc [1, 2, 0] = 0" using l(2) by simp
  moreover have "entry world_rot [1, 2, 1, 1] = 1" using w(2) by simp
  moreover have "entry world_rot [1, 2, 0, 1] = 0" using w(2) by simp
  ultimately show ?thesis using h r l(1) w(1) by blast
qed

text \<open>
  C7, as stated: an instance whose metadata lacks a required field (the gender, say) raises
  at access to the dataset, and no default is put in its place. It does not: the mixed
  dataset, whose fields are age and gender, returns an item that has no gender with the
  text \<open>nan\<close> as its gender.
\<close>

theorem C7_missing_metadata_counterexample:
  "snd (snd demo_item) ''gender'' = None \<and>
   MixedDataset_getitem demo_convert demo_nan_tensor demo_mixed demo_item
     = Inr (torch_zeros [2, 1, 3], [], [(''age'', Str ''adult''), (''gender'', Str ''nan'')])"
  by (simp add: MixedDataset_getitem_def demo_mixed_def demo_item_def demo_convert_def
      numpy_nan_item_def)

text \<open>
  C7, amended. At denormalization, for every instance of the batch whose metadata entry
  is missing, an error of the instance is raised and no default is put in its place:
  \<open>_calculate_abs_from_abs_loc_output\<close> raises \<open>MissingMetadataError\<close> for the first
  instance of the batch without its entry, which is that instance or one before it.
  At access to the mixed dataset a field that the instance lacks is not an error of its
  own: whenever the access returns, the field holds NaN converted to the type of the field
  (\<open>numpy_nan_item\<close>: the text \<open>nan\<close> for a string field such as the gender).
\<close>

theorem C7_missing_metadata:
  "(denormalize_from_abs lib = from_abs_spec table rescale \<and>
    pedestrians self = Some peds \<and> len t = Inr n \<and> idx < n \<and>
    metadata_missing table (map (age_of lib) peds) (map (gender_of lib) peds) idx \<longrightarrow>
      (\<exists>j\<le>idx.
         metadata_missing table (map (age_of lib) peds) (map (gender_of lib) peds) j \<and>
         (\<forall>i<j. \<not> metadata_missing table (map (age_of lib) peds) (map (gender_of lib) peds) i) \<and>
         fst (calculate_abs_from_abs_loc_output lib self (Tensor t))
           = Inl (MissingMetadataError j))) \<and>
   (meta_template ds = Some template \<and> (key, d) \<in> set template \<and> m key = None \<and>
    MixedDataset_getitem convert nan_tensor ds (p, targets, m) = Inr (p', ct, cm) \<longrightarrow>
      (\<exists>v. numpy_nan_item d = Inr v \<and> (key, v) \<in> set cm))"
proof (intro conjI impI)
  let ?ages = "map (age_of lib) peds" and ?genders = "map (gender_of lib) peds"
  assume a: "denormalize_from_abs lib = from_abs_spec table rescale \<and>
    pedestrians self = Some peds \<and> len t = Inr n \<and> idx < n \<and>
    metadata_missing table ?ages ?genders idx"
  then have l: "len t = Inr n" and i: "idx < n"
    and mm: "metadata_missing table ?ages ?genders idx"
    by simp_all
  from from_abs_spec_missing [OF l i mm, of rescale] obtain j where
    j: "j \<le> idx" "metadata_missing table ?ages ?genders j"
      "\<forall>i<j. \<not> metadata_missing table ?ages ?genders i"
    and r: "from_abs_spec table rescale (Tensor t) ?ages ?genders = Inl (MissingMetadataError j)"
    by blast
  from a r have "fst (calculate_abs_from_abs_loc_output lib self (Tensor t))
                   = Inl (MissingMetadataError j)"
    by (simp add: calculate_abs_from_abs_loc_output_def io_bind_def io_call_def)
  with j show "\<exists>j\<le>idx. metadata_missing table ?ages ?genders j \<and>
         (\<forall>i<j. \<not> metadata_missing table ?ages ?genders i) \<and>
         fst (calculate_abs_from_abs_loc_output lib self (Tensor t))
           = Inl (MissingMetadataError j)"
    by blast
next
  assume a: "meta_template ds = Some template \<and> (key, d) \<in> set template \<and> m key = None \<and>
    MixedDataset_getitem convert nan_tensor ds (p, targets, m) = Inr (p', ct, cm)"
  then have "common_meta_of convert template m = Inr cm"
    by (auto simp: MixedDataset_getitem_def split: sum.splits)
  with a show "\<exists>v. numpy_nan_item d = Inr v \<and> (key, v) \<in> set cm"
    by (blast intro: common_meta_missing)
qed

theorem C7_missing_metadata_witness:
  "denormalize_from_abs demo_denormalizing_lib
     = from_abs_spec demo_table (\<lambda>references t. Inr t) \<and>
   pedestrians demo_nan_module = Some [(''adult'', ''female''), (''adult'', ''nan'')] \<and>
   len (torch_zeros [2, 1, 1, 3]) = Inr 2 \<and>
   metadata_missing demo_table [''adult'', ''adult''] [''female'', ''nan''] 1 \<and>
   \<not> metadata_missing demo_table [''adult'', ''adult''] [''female'', ''nan''] 0 \<and>
   fst (calculate_abs_from_abs_loc_output demo_denormalizing_lib demo_nan_module
          (Tensor (torch_zeros [2, 1, 1, 3]))) = Inl (MissingMetadataError 1) \<and>
   meta_template demo_mixed = Some [(''age'', Dtype_str), (''gender'', Dtype_str)] \<and>
   (''gender'', Dtype_str) \<in> set [(''age'', Dtype_str), (''gender'', Dtype_str)] \<and>
   [''age'' \<mapsto> Str ''adult''] ''gender'' = None \<and>
   MixedDataset_getitem demo_convert demo_nan_tensor demo_mixed
       (torch_zeros [2, 1, 3], Map.empty, [''age'' \<mapsto> Str ''adult''])
     = Inr (torch_zeros [2, 1, 3], [], [(''age'', Str ''adult''), (''gender'', Str ''nan'')]) \<and>
   (\<exists>v. numpy_nan_item Dtype_str = Inr v \<and>
        (''gender'', v) \<in> set [(''age'', Str ''adult''), (''gender'', Str ''nan'')])"
proof -
  let ?ages = "[''adult'', ''adult'']" and ?genders = "[''female'', ''nan'']"
  let ?t = "torch_zeros [2, 1, 1, 3]"
  have g1: "denormalize_from_abs demo_denormalizing_lib
              = from_abs_spec demo_table (\<lambda>references t. Inr t)"
    by (simp add: demo_denormalizing_lib_def)
  have g2: "pedestrians demo_nan_module = Some [(''adult'', ''female''), (''adult'', ''nan'')]"
    by (simp add: demo_nan_module_def)
  have g3: "len ?t = Inr 2" by (simp add: len_def torch_zeros_def)
  have g4: "metadata_missing demo_table ?ages ?genders 1"
    by (simp add: metadata_missing_def demo_table_def)
  have g5: "\<not> metadata_missing demo_table ?ages ?genders 0"
    by (simp add: metadata_missing_def demo_table_def)
  have ag: "map (age_of demo_denormalizing_lib) [(''adult'', ''female''), (''adult'', ''nan'')]
              = ?ages"
    "map (gender_of demo_denormalizing_lib) [(''adult'', ''female''), (''adult'', ''nan'')]
              = ?genders"
    by (simp_all add: demo_denormalizing_lib_def demo_lib_def)
  have h2: "meta_template demo_mixed = Some [(''age'', Dtype_str), (''gender'', Dtype_str)]"
    by (simp add: demo_mixed_def)
  have h3: "(''gender'', Dtype_str) \<in> set [(''age'', Dtype_str), (''gender'', Dtype_str)]"
    by simp
  have h4: "[''age'' \<mapsto> Str ''adult''] ''gender'' = None" by simp
  have h5: "MixedDataset_getitem demo_convert demo_nan_tensor demo_mixed
       (torch_zeros [2, 1, 3], Map.empty, [''age'' \<mapsto> Str ''adult''])
     = Inr (torch_zeros [2, 1, 3], [], [(''age'', Str ''adult''), (''gender'', Str ''nan'')])"
    by (simp add: MixedDataset_getitem_def demo_mixed_def demo_convert_def numpy_nan_item_def)
  note t = C7_missing_metadata
    [where lib = demo_denormalizing_lib and table = demo_table
       and rescale = "\<lambda>references t. Inr t" and self = demo_nan_module
       and peds = "[(''adult'', ''female''), (''adult'', ''nan'')]"
       and t = "torch_zeros [2, 1, 1, 3]" and n = 2 and idx = 1
       and ds = demo_mixed
       and template = "[(''age'', Dtype_str), (''gender'', Dtype_str)]"
       and key = "''gender''" and d = Dtype_str and m = "[''age'' \<mapsto> Str ''adult'']"
       and convert = demo_convert and nan_tensor = demo_nan_tensor
       and p = "torch_zeros [2, 1, 3]" and targets = Map.empty
       and p' = "torch_zeros [2, 1, 3]" and ct = "[]"
       and cm = "[(''age'', Str ''adult''), (''gender'', Str ''nan'')]", unfolded ag]
  from t g1 g2 g3 g4 obtain j where
    j: "j \<le> 1" "metadata_missing demo_table ?ages ?genders j"
    and r: "fst (calculate_abs_from_abs_loc_output demo_denormalizing_lib demo_nan_module
                   (Tensor ?t)) = Inl (MissingMetadataError j)"
    by auto
  from j g5 have "j = 1" by (cases "j = 0") auto
  with r have a: "fst (calculate_abs_from_abs_loc_output demo_denormalizing_lib demo_nan_module
                   (Tensor ?t)) = Inl (MissingMetadataError 1)"
    by simp
  from t h2 h3 h4 h5 have b: "\<exists>v. numpy_nan_item Dtype_str = Inr v \<and>
        (''gender'', v) \<in> set [(''age'', Str ''adult''), (''gender'', Str ''nan'')]"
    by blast
  from g1 g2 g3 g4 g5 a h2 h3 h4 h5 b show ?thesis by blast
qed

text \<open>
  C8, as stated: every pose input whose clip length is zero makes the projection raise.
  It does not: on the small instance, in pose-changes mode, an input of shape
  (1, 0, 1, 3, 3) is projected without any exception.
\<close>

theorem C8_zero_length_clip_counterexample:
  "shape_1 (demo_changes 0) = Inr 0 \<and>
   \<not> raises (project_pose demo_lib demo_module (Tensor (demo_changes 0)) None None)"
  by (simp add: shape_1_def raises_def project_pose_def project_pose_guard_def ndim_of_def
      ndim_def calculate_abs_def calculate_abs_from_pose_changes_def calculate_world_def
      calculate_world_from_loc_rot_def reshape_def repeat_def torch_eye_def demo_eval)

text \<open>
  C8, amended. A clip of length zero is not rejected. In pose-changes mode with the
  location+rotation world accumulator, for every input with five axes or more whose clip
  length is 0, and a module whose reference tensors can be stacked, \<open>project_pose\<close> raises
  nothing, calls neither the pose recurrence nor the projection, and returns empty
  projections and absolute poses of the shapes (N, 0, P, 3) and (N, 0, P, 3, 3).
\<close>

theorem C8_zero_length_clip_returns_empty:
  assumes "movements_output_type self = Movements_pose_changes"
    and "trajectory_output_type self = Trajectory_loc_rot"
    and "shape x = N # 0 # P # a # b # rest"
    and "get_reference_tensors lib self = Inr refs"
  shows "\<exists>projections absolute_loc rot_out world_loc world_rot.
           project_pose lib self (Tensor x) wl wr
             = (Inr (projections, absolute_loc, Some rot_out, world_loc, world_rot), []) \<and>
           shape projections = [N, 0, P, 3] \<and>
           shape absolute_loc = [N, 0, P, 3] \<and>
           shape rot_out = [N, 0, P, 3, 3]"
proof -
  obtain ref_loc ref_rot where refs: "refs = (ref_loc, ref_rot)" by (cases refs)
  from assms(4) obtain pose where p: "first_pedestrian self = Inr pose"
    by (auto simp: get_reference_tensors_def first_pedestrian_def
        split: option.splits list.splits)
  let ?al = "torch_empty (fresh_memory lib) [N, 0, P, 3]"
  let ?ar = "torch_empty (fresh_memory lib) [N, 0, P, 3, 3]"
  have g: "project_pose_guard (movements_output_type self) (Tensor x) = None"
    using assms(1,3) by (simp add: project_pose_guard_def ndim_of_def ndim_def)
  have abs: "calculate_abs lib self (Tensor x) = (Inr (?al, Some ?ar), [])"
    using assms(1,3,4) refs p
    by (simp add: calculate_abs_def calculate_abs_from_pose_changes_def io_lift_def
        io_return_def Let_def)
  have "shape ?al = N # 0 # [P, 3]" by (simp add: torch_empty_def)
  from calculate_world_from_loc_rot_success [OF this, of wl wr]
  obtain world_loc world_rot where
    w: "calculate_world_from_loc_rot ?al wl wr = Inr (world_loc, world_rot)" by blast
  have world: "calculate_world lib self ?al wl wr = (Inr (world_loc, world_rot), [])"
    using assms(2) w by (simp add: calculate_world_def io_lift_def)
  have "project_pose lib self (Tensor x) wl wr
          = (Inr (torch_empty_like (fresh_memory lib) ?al, ?al, Some ?ar, world_loc, world_rot), [])"
    using g abs world
    by (simp add: project_pose_def shape_1_def torch_empty_def torch_empty_like_def
        io_lift_def io_return_def Let_def)
  then show ?thesis
    by (simp add: torch_empty_def torch_empty_like_def)
qed

theorem C8_zero_length_clip_returns_empty_witness:
  "movements_output_type demo_module = Movements_pose_changes \<and>
   trajectory_output_type demo_module = Trajectory_loc_rot \<and>
   shape (demo_changes 0) = 1 # 0 # 1 # 3 # 3 # [] \<and>
   (\<exists>refs. get_reference_tensors demo_lib demo_module = Inr refs) \<and>
   (\<exists>projections absolute_loc rot_out world_loc world_rot.
      project_pose demo_lib demo_module (Tensor (demo_changes 0)) None None
        = (Inr (projections, absolute_loc, Some rot_out, world_loc, world_rot), []) \<and>
      shape projections = [1, 0, 1, 3] \<and>
      shape absolute_loc = [1, 0, 1, 3] \<and>
      shape rot_out = [1, 0, 1, 3, 3])"
proof -
  have h1: "movements_output_type demo_module = Movements_pose_changes"
    and h2: "trajectory_output_type demo_module = Trajectory_loc_rot"
    by (simp_all add: demo_module_def)
  have h3: "shape (demo_changes 0) = 1 # 0 # 1 # 3 # 3 # []" by (simp add: demo_changes_def)
  obtain refs where h4: "get_reference_tensors demo_lib demo_module = Inr refs"
    by (simp add: demo_eval)
  from C8_zero_length_clip_returns_empty [OF h1 h2 h3 h4, of None None] h1 h2 h3 h4
  show ?thesis by blast
qed


text \<open>
  C10. In relative-rotation mode the frames are independent of one another: for an input
  of shape (batch, clip length, bones, 3, 3), frame \<open>i\<close> of the absolute locations and
  rotations is what \<open>relative_to_absolute\<close> returns for the fixed reference relative
  locations and the rotations of frame \<open>i\<close> alone. No state passes from frame to frame,
  so two inputs that agree at frame \<open>i\<close> give the same frame \<open>i\<close> of both outputs,
  whatever their other frames are.
\<close>

theorem C10_relative_rot_frames_independent:
  assumes "calculate_abs_from_relative_rot lib self (Tensor x)
             = (Inr (absolute_loc, absolute_rot), calls)"
  shows "\<exists>N L P rest pose ref_loc ref_rot loc0 rot_out.
           shape x = N # L # P # rest \<and>
           first_pedestrian self = Inr pose \<and>
           get_reference_tensors lib self = Inr (ref_loc, ref_rot) \<and>
           expand_reference_loc ref_loc N = Inr loc0 \<and>
           absolute_rot = Some rot_out \<and>
           (\<forall>i < L. \<exists>loc rot.
              pose_relative_to_absolute lib pose loc0 (slice1 x i) = Inr (loc, rot) \<and>
              slice1 absolute_loc i = frame_written loc [N, P, 3] \<and>
              slice1 rot_out i = frame_written rot [N, P, 3, 3]) \<and>
           (\<forall>x' absolute_loc' rot_out' calls' L' i.
              calculate_abs_from_relative_rot lib self (Tensor x')
                = (Inr (absolute_loc', Some rot_out'), calls') \<longrightarrow>
              shape_1 x' = Inr L' \<longrightarrow>
              i < L \<longrightarrow> i < L' \<longrightarrow>
              slice1 x i = slice1 x' i \<longrightarrow>
              slice1 absolute_loc i = slice1 absolute_loc' i \<and>
              slice1 rot_out i = slice1 rot_out' i)"
proof -
  obtain N L P rest ref_loc ref_rot loc0 pose rot_out where
    sh: "shape x = N # L # P # rest"
    and g: "get_reference_tensors lib self = Inr (ref_loc, ref_rot)"
    and e: "expand_reference_loc ref_loc N = Inr loc0"
    and p: "first_pedestrian self = Inr pose"
    and r: "absolute_rot = Some rot_out"
    and f: "\<forall>i < L.
       \<exists>loc rot. pose_relative_to_absolute lib pose loc0 (slice1 x i) = Inr (loc, rot) \<and>
         slice1 absolute_loc i = frame_written loc [N, P, 3] \<and>
         slice1 rot_out i = frame_written rot [N, P, 3, 3]"
    using relative_rot_success [OF assms] by blast
  have "slice1 absolute_loc i = slice1 absolute_loc' i \<and> slice1 rot_out i = slice1 rot_out' i"
    if run': "calculate_abs_from_relative_rot lib self (Tensor x')
                = (Inr (absolute_loc', Some rot_out'), calls')"
      and len': "shape_1 x' = Inr L'"
      and t: "i < L" "i < L'"
      and agree: "slice1 x i = slice1 x' i"
    for x' absolute_loc' rot_out' calls' L' i
  proof -
    obtain N' L'' P' rest' ref_loc' ref_rot' loc0' pose' rot_out'' where
      sh': "shape x' = N' # L'' # P' # rest'"
      and g': "get_reference_tensors lib self = Inr (ref_loc', ref_rot')"
      and e': "expand_reference_loc ref_loc' N' = Inr loc0'"
      and p': "first_pedestrian self = Inr pose'"
      and r': "Some rot_out' = Some rot_out''"
      and f': "\<forall>i < L''.
         \<exists>loc rot. pose_relative_to_absolute lib pose' loc0' (slice1 x' i) = Inr (loc, rot) \<and>
           slice1 absolute_loc' i = frame_written loc [N', P', 3] \<and>
           slice1 rot_out'' i = frame_written rot [N', P', 3, 3]"
      using relative_rot_success [OF run'] by blast
    from agree have "shape (slice1 x i) = shape (slice1 x' i)" by simp
    with sh sh' have dims: "N' = N" "P' = P" by simp_all
    from g g' p p' e e' dims have same: "pose' = pose" "loc0' = loc0" by simp_all
    from sh' len' t(2) have tL': "i < L''" by (simp add: shape_1_def)
    from f t(1) obtain loc rot where
      a: "pose_relative_to_absolute lib pose loc0 (slice1 x i) = Inr (loc, rot)"
        "slice1 absolute_loc i = frame_written loc [N, P, 3]"
        "slice1 rot_out i = frame_written rot [N, P, 3, 3]"
      by blast
    from f' tL' obtain loc' rot' where
      b: "pose_relative_to_absolute lib pose' loc0' (slice1 x' i) = Inr (loc', rot')"
        "slice1 absolute_loc' i = frame_written loc' [N', P', 3]"
        "slice1 rot_out'' i = frame_written rot' [N', P', 3, 3]"
      by blast
    from a(1) b(1) agree same have "loc' = loc" "rot' = rot" by simp_all
    with a(2,3) b(2,3) dims r' show ?thesis by simp
  qed
  with sh p g e r f show ?thesis by blast
qed


theorem C10_relative_rot_frames_independent_witness:
  "\<exists>absolute_loc rot_out calls absolute_loc' rot_out' calls'.
     calculate_abs_from_relative_rot demo_lib demo_module (Tensor (demo_changes 2))
       = (Inr (absolute_loc, Some rot_out), calls) \<and>
     calculate_abs_from_relative_rot demo_lib demo_module (Tensor demo_changes_alt)
       = (Inr (absolute_loc', Some rot_out'), calls') \<and>
     shape_1 demo_changes_alt = Inr 2 \<and>
     slice1 (demo_changes 2) 1 = slice1 demo_changes_alt 1 \<and>
     slice1 absolute_loc 1 = slice1 absolute_loc' 1 \<and>
     slice1 rot_out 1 = slice1 rot_out' 1"
proof -
  obtain al ar c where
    r2: "calculate_abs_from_relative_rot demo_lib demo_module (Tensor (demo_changes 2))
           = (Inr (al, Some ar), c)"
    using demo_rel_run by blast
  obtain al' ar' c' where
    r1: "calculate_abs_from_relative_rot demo_lib demo_module (Tensor demo_changes_alt)
           = (Inr (al', Some ar'), c')"
    using demo_rel_run_alt by blast
  have s1: "shape_1 demo_changes_alt = Inr 2" by (simp add: shape_1_def demo_changes_alt_def)
  have s2: "shape (demo_changes 2) = [1, 2, 1, 3, 3]" by (simp add: demo_changes_def)
  note ag = demo_agree_alt
  from C10_relative_rot_frames_independent [OF r2] obtain N where
    "\<exists>L P rest pose ref_loc ref_rot loc0 rot_out.
           shape (demo_changes 2) = N # L # P # rest \<and>
           first_pedestrian demo_module = Inr pose \<and>
           get_reference_tensors demo_lib demo_module = Inr (ref_loc, ref_rot) \<and>
           expand_reference_loc ref_loc N = Inr loc0 \<and>
           Some ar = Some rot_out \<and>
           (\<forall>i < L. \<exists>loc rot.
              pose_relative_to_absolute demo_lib pose loc0 (slice1 (demo_changes 2) i) = Inr (loc, rot) \<and>
              slice1 al i = frame_written loc [N, P, 3] \<and>
              slice1 rot_out i = frame_written rot [N, P, 3, 3]) \<and>
           (\<forall>x' absolute_loc' rot_out' calls' L' i.
              calculate_abs_from_relative_rot demo_lib demo_module (Tensor x')
                = (Inr (absolute_loc', Some rot_out'), calls') \<longrightarrow>
              shape_1 x' = Inr L' \<longrightarrow>
              i < L \<longrightarrow> i < L' \<longrightarrow>
              slice1 (demo_changes 2) i = slice1 x' i \<longrightarrow>
              slice1 al i = slice1 absolute_loc' i \<and>
              slice1 rot_out i = slice1 rot_out' i)" ..
  then obtain L where
    "\<exists>P rest pose ref_loc ref_rot loc0 rot_out.
           shape (demo_changes 2) = N # L # P # rest \<and>
           first_pedestrian demo_module = Inr pose \<and>
           get_reference_tensors demo_lib demo_module = Inr (ref_loc, ref_rot) \<and>
           expand_reference_loc ref_loc N = Inr loc0 \<and>
           Some ar = Some rot_out \<and>
           (\<forall>i < L. \<exists>loc rot.
              pose_relative_to_absolute demo_lib pose loc0 (slice1 (demo_changes 2) i) = Inr (loc, rot) \<and>
              slice1 al i = frame_written loc [N, P, 3] \<and>
              slice1 rot_out i = frame_written rot [N, P, 3, 3]) \<and>
           (\<forall>x' absolute_loc' rot_out' calls' L' i.
              calculate_abs_from_relative_rot demo_lib demo_module (Tensor x')
                = (Inr (absolute_loc', Some rot_out'), calls') \<longrightarrow>
              shape_1 x' = Inr L' \<longrightarrow>
              i < L \<longrightarrow> i < L' \<longrightarrow>
              slice1 (demo_changes 2) i = slice1 x' i \<longrightarrow>
              slice1 al i = slice1 absolute_loc' i \<and>
              slice1 rot_out i = slice1 rot_out' i)" ..
  then obtain P where
    "\<exists>rest pose ref_loc ref_rot loc0 rot_out.
           shape (demo_changes 2) = N # L # P # rest \<and>
           first_pedestrian demo_module = Inr pose \<and>
           get_reference_tensors demo_lib demo_module = Inr (ref_loc, ref_rot) \<and>
           expand_reference_loc ref_loc N = Inr loc0 \<and>
           Some ar = Some rot_out \<and>
           (\<forall>i < L. \<exists>loc rot.
              pose_relative_to_absolute demo_lib pose loc0 (slice1 (demo_changes 2) i) = Inr (loc, rot) \<and>
              slice1 al i = frame_written loc [N, P, 3] \<and>
              slice1 rot_out i = frame_written rot [N, P, 3, 3]) \<and>
           (\<forall>x' absolute_loc' rot_out' calls' L' i.
              calculate_abs_from_relative_rot demo_lib demo_module (Tensor x')
                = (Inr (absolute_loc', Some rot_out'), calls') \<longrightarrow>
              shape_1 x' = Inr L' \<longrightarrow>
              i < L \<longrightarrow> i < L' \<longrightarrow>
              slice1 (demo_changes 2) i = slice1 x' i \<longrightarrow>
              slice1 al i = slice1 absolute_loc' i \<and>
              slice1 rot_out i = slice1 rot_out' i)" ..
  then obtain rest where
    "\<exists>pose ref_loc ref_rot loc0 rot_out.
           shape (demo_changes 2) = N # L # P # rest \<and>
           first_pedestrian demo_module = Inr pose \<and>
           get_reference_tensors demo_lib demo_module = Inr (ref_loc, ref_rot) \<and>
           expand_reference_loc ref_loc N = Inr loc0 \<and>
           Some ar = Some rot_out \<and>
           (\<forall>i < L. \<exists>loc rot.
              pose_relative_to_absolute demo_lib pose loc0 (slice1 (demo_changes 2) i) = Inr (loc, rot) \<and>
              slice1 al i = frame_written loc [N, P, 3] \<and>
              slice1 rot_out i = frame_written rot [N, P, 3, 3]) \<and>
           (\<forall>x' absolute_loc' rot_out' calls' L' i.
              calculate_abs_from_relative_rot demo_lib demo_module (Tensor x')
                = (Inr (absolute_loc', Some rot_out'), calls') \<longrightarrow>
              shape_1 x' = Inr L' \<longrightarrow>
              i < L \<longrightarrow> i < L' \<longrightarrow>
              slice1 (demo_changes 2) i = slice1 x' i \<longrightarrow>
              slice1 al i = slice1 absolute_loc' i \<and>
              slice1 rot_out i = slice1 rot_out' i)" ..
  then obtain pose where
    "\<exists>ref_loc ref_rot loc0 rot_out.
           shape (demo_changes 2) = N # L # P # rest \<and>
           first_pedestrian demo_module = Inr pose \<and>
           get_reference_tensors demo_lib demo_module = Inr (ref_loc, ref_rot) \<and>
           expand_reference_loc ref_loc N = Inr loc0 \<and>
           Some ar = Some rot_out \<and>
           (\<forall>i < L. \<exists>loc rot.
              pose_relative_to_absolute demo_lib pose loc0 (slice1 (demo_changes 2) i) = Inr (loc, rot) \<and>
              slice1 al i = frame_written loc [N, P, 3] \<and>
              slice1 rot_out i = frame_written rot [N, P, 3, 3]) \<and>
           (\<forall>x' absolute_loc' rot_out' calls' L' i.
              calculate_abs_from_relative_rot demo_lib demo_module (Tensor x')
                = (Inr (absolute_loc', Some rot_out'), calls') \<longrightarrow>
              shape_1 x' = Inr L' \<longrightarrow>
              i < L \<longrightarrow> i < L' \<longrightarrow>
              slice1 (demo_changes 2) i = slice1 x' i \<longrightarrow>
              slice1 al i = slice1 absolute_loc' i \<and>
              slice1 rot_out i = slice1 rot_out' i)" ..
  then obtain ref_loc where
    "\<exists>ref_rot loc0 rot_out.
           shape (demo_changes 2) = N # L # P # rest \<and>
           first_pedestrian demo_module = Inr pose \<and>
           get_reference_tensors demo_lib demo_module = Inr (ref_loc, ref_rot) \<and>
           expand_reference_loc ref_loc N = Inr loc0 \<and>
           Some ar = Some rot_out \<and>
           (\<forall>i < L. \<exists>loc rot.
              pose_relative_to_absolute demo_lib pose loc0 (slice1 (demo_changes 2) i) = Inr (loc, rot) \<and>
              slice1 al i = frame_written loc [N, P, 3] \<and>
              slice1 rot_out i = frame_written rot [N, P, 3, 3]) \<and>
           (\<forall>x' absolute_loc' rot_out' calls' L' i.
              calculate_abs_from_relative_rot demo_lib demo_module (Tensor x')
                = (Inr (absolute_loc', Some rot_out'), calls') \<longrightarrow>
              shape_1 x' = Inr L' \<longrightarrow>
              i < L \<longrightarrow> i < L' \<longrightarrow>
              slice1 (demo_changes 2) i = slice1 x' i \<longrightarrow>
              slice1 al i = slice1 absolute_loc' i \<and>
              slice1 rot_out i = slice1 rot_out' i)" ..
  then obtain ref_rot where
    "\<exists>loc0 rot_out.
           shape (demo_changes 2) = N # L # P # rest \<and>
           first_pedestrian demo_module = Inr pose \<and>
           get_reference_tensors demo_lib demo_module = Inr (ref_loc, ref_rot) \<and>
           expand_reference_loc ref_loc N = Inr loc0 \<and>
           Some ar = Some rot_out \<and>
           (\<forall>i < L. \<exists>loc rot.
              pose_relative_to_absolute demo_lib pose loc0 (slice1 (demo_changes 2) i) = Inr (loc, rot) \<and>
              slice1 al i = frame_written loc [N, P, 3] \<and>
              slice1 rot_out i = frame_written rot [N, P, 3, 3]) \<and>
           (\<forall>x' absolute_loc' rot_out' calls' L' i.
              calculate_abs_from_relative_rot demo_lib demo_module (Tensor x')
                = (Inr (absolute_loc', Some rot_out'), calls') \<longrightarrow>
              shape_1 x' = Inr L' \<longrightarrow>
              i < L \<longrightarrow> i < L' \<longrightarrow>
              slice1 (demo_changes 2) i = slice1 x' i \<longrightarrow>
              slice1 al i = slice1 absolute_loc' i \<and>
              slice1 rot_out i = slice1 rot_out' i)" ..
  then obtain loc0 where
    "\<exists>rot_out.
           shape (demo_changes 2) = N # L # P # rest \<and>
           first_pedestrian demo_module = Inr pose \<and>
           get_reference_tensors demo_lib demo_module = Inr (ref_loc, ref_rot) \<and>
           expand_reference_loc ref_loc N = Inr loc0 \<and>
           Some ar = Some rot_out \<and>
           (\<forall>i < L. \<exists>loc rot.
              pose_relative_to_absolute demo_lib pose loc0 (slice1 (demo_changes 2) i) = Inr (loc, rot) \<and>
              slice1 al i = frame_written loc [N, P, 3] \<and>
              slice1 rot_out i = frame_written rot [N, P, 3, 3]) \<and>
           (\<forall>x' absolute_loc' rot_out' calls' L' i.
              calculate_abs_from_relative_rot demo_lib demo_module (Tensor x')
                = (Inr (absolute_loc', Some rot_out'), calls') \<longrightarrow>
              shape_1 x' = Inr L' \<longrightarrow>
              i < L \<longrightarrow> i < L' \<longrightarrow>
              slice1 (demo_changes 2) i = slice1 x' i \<longrightarrow>
              slice1 al i = slice1 absolute_loc' i \<and>
              slice1 rot_out i = slice1 rot_out' i)" ..
  then obtain rot_out where
    all: "           shape (demo_changes 2) = N # L # P # rest \<and>
           first_pedestrian demo_module = Inr pose \<and>
           get_reference_tensors demo_lib demo_module = Inr (ref_loc, ref_rot) \<and>
           expand_reference_loc ref_loc N = Inr loc0 \<and>
           Some ar = Some rot_out \<and>
           (\<forall>i < L. \<exists>loc rot.
              pose_relative_to_absolute demo_lib pose loc0 (slice1 (demo_changes 2) i) = Inr (loc, rot) \<and>
              slice1 al i = frame_written loc [N, P, 3] \<and>
              slice1 rot_out i = frame_written rot [N, P, 3, 3]) \<and>
           (\<forall>x' absolute_loc' rot_out' calls' L' i.
              calculate_abs_from_relative_rot demo_lib demo_module (Tensor x')
                = (Inr (absolute_loc', Some rot_out'), calls') \<longrightarrow>
              shape_1 x' = Inr L' \<longrightarrow>
              i < L \<longrightarrow> i < L' \<longrightarrow>
              slice1 (demo_changes 2) i = slice1 x' i \<longrightarrow>
              slice1 al i = slice1 absolute_loc' i \<and>
              slice1 rot_out i = slice1 rot_out' i)" ..
  from all s2 have L2: "L = 2" and ro: "rot_out = ar" by simp_all
  from all have dep: "calculate_abs_from_relative_rot demo_lib demo_module (Tensor demo_changes_alt)
                = (Inr (al', Some ar'), c') \<longrightarrow>
              shape_1 demo_changes_alt = Inr 2 \<longrightarrow>
              1 < L \<longrightarrow> (1::nat) < 2 \<longrightarrow>
              slice1 (demo_changes 2) 1 = slice1 demo_changes_alt 1 \<longrightarrow>
              slice1 al 1 = slice1 al' 1 \<and>
              slice1 rot_out 1 = slice1 ar' 1"
    by (elim conjE allE)
  with r1 s1 ag L2 ro have out: "slice1 al 1 = slice1 al' 1 \<and> slice1 ar 1 = slice1 ar' 1"
    by simp
  from r2 r1 s1 ag out show ?thesis by (intro exI conjI) (elim conjE; assumption)+
qed

end
